theory Spec2Isabelle
  imports Complex_Main "HOL-Library.Sublist"
begin

section \<open>Strings, thrown values and files\<close>

text \<open>
  File names are strings of bytes. \<open>toLowerCase\<close> maps the ASCII capitals \<open>A\<close>..\<open>Z\<close> to
  their small letters and leaves every other byte alone; the three extensions the loader
  looks for are ASCII, and no character outside ASCII lower-cases to one of their letters.
\<close>

definition toLowerCase_char :: "char \<Rightarrow> char" where
  "toLowerCase_char c =
     (case map_of (zip ''ABCDEFGHIJKLMNOPQRSTUVWXYZ'' ''abcdefghijklmnopqrstuvwxyz'') c of
        None \<Rightarrow> c
      | Some d \<Rightarrow> d)"

definition toLowerCase :: "string \<Rightarrow> string" where
  "toLowerCase s = map toLowerCase_char s"

definition endsWith :: "string \<Rightarrow> string \<Rightarrow> bool" where
  "endsWith s ext = (length ext \<le> length s \<and> drop (length s - length ext) s = ext)"

fun join :: "string \<Rightarrow> string list \<Rightarrow> string" where
  "join sep [] = []"
| "join sep [x] = x"
| "join sep (x # y # ys) = x @ sep @ join sep (y # ys)"

text \<open>
  A thrown value. \<open>new Error(msg)\<close> carries a message; a rejected \<open>FileReader\<close> hands over
  a progress event, which has no \<open>message\<close> property.
\<close>

datatype error = Error "string option"

text \<open>What a template literal prints for \<open>error.message\<close>.\<close>

fun message_text :: "error \<Rightarrow> string" where
  "message_text (Error None) = ''undefined''"
| "message_text (Error (Some m)) = m"

record model_file =
  file_name :: string
  file_size :: nat

subsection \<open>ModelLoader.validateFile\<close>

definition supportedExtensions :: "string list" where
  "supportedExtensions = [''.glb'', ''.gltf'', ''.stl'']"

definition maxSize :: nat where
  "maxSize = 50 * 1024 * 1024"

definition validateFile :: "model_file \<Rightarrow> error + bool" where
  "validateFile f =
     (let fileName = toLowerCase (file_name f);
          isSupported = list_ex (\<lambda>ext. endsWith fileName ext) supportedExtensions
      in if \<not> isSupported
         then Inl (Error (Some (''Unsupported file format. Supported formats: ''
                                  @ join '', '' supportedExtensions)))
         else if file_size f > maxSize
         then Inl (Error (Some ''File too large. Maximum size: 50MB''))
         else Inr True)"

section \<open>The scene graph, the components and the page\<close>

text \<open>
  Scene objects live in a store and are referred to by identity, as the script's object
  references are: the scene's child list, the viewer's current model, the placed clone and
  the reticle all hold identities. A new object (a parsed model, a clone, a reticle, a
  light) takes the next unused identity.
\<close>

type_synonym oid = nat

type_synonym vec3 = "real \<times> real \<times> real"

datatype kind = AmbientLight | DirectionalLight | PointLight | ReticleMesh | ModelObject

record object3d =
  kind :: kind
  position :: vec3
  scale :: vec3
  visible :: bool
  intensity :: real

datatype model_type = GLTF | STL

text \<open>The value a loader resolves with: \<open>{ model, animations, type }\<close>.\<close>

record load_result =
  model :: oid
  animations :: "nat list"
  mtype :: model_type

datatype blend_mode = Opaque | AlphaBlend | Additive

record xr_session =
  session_id :: nat
  environmentBlendMode :: blend_mode

text \<open>
  The history of the calls the claims speak about: delegations to the two parsers, the
  controller's AR entry points, the platform's XR and media requests, and every message
  handed to \<open>showError\<close>. It is a ghost field: no function reads it.
\<close>

datatype event =
    Call_loadGLTF model_file
  | Call_loadSTL model_file
  | Call_enterAR
  | Call_exitAR
  | Call_startARSession
  | Call_startARSimulation
  | Call_startBasicARSimulation
  | XR_requestSession string "string list"
  | XR_requestReferenceSpace string
  | XR_requestHitTestSource
  | XR_getHitTestResults
  | XR_sessionEnd
  | Media_getUserMedia
  | UI_showError string

text \<open>
  One record holds the three objects the controller wires together. \<open>ARMode.modelViewer\<close>
  and \<open>WebGLARApp.modelViewer\<close> are the same \<open>ModelViewer\<close>, so its fields appear once.
  \<open>mv_currentModel\<close> is \<open>ModelViewer.currentModel\<close> and \<open>app_currentModel\<close> is
  \<open>WebGLARApp.currentModel\<close>. Orbit controls, shadows, rotations and the canvas are not
  represented.
\<close>

record state =
  heap :: "oid \<Rightarrow> object3d"
  next_oid :: oid
  \<comment> \<open>ModelViewer\<close>
  scene :: "oid list"
  background :: "nat option"
  clearColor :: "nat \<times> nat"
  mv_currentModel :: "oid option"
  lights :: "oid list"
  cameraPosition :: vec3
  xrEnabled :: bool
  rendererSession :: "xr_session option"
  animationLoop :: bool
  \<comment> \<open>ARMode\<close>
  xrSession :: "xr_session option"
  xrRefSpace :: "nat option"
  xrHitTestSource :: "nat option"
  placedModel :: "oid option"
  reticle :: "oid option"
  isARSupported :: bool
  endListeners :: "nat list"
  \<comment> \<open>WebGLARApp\<close>
  app_currentModel :: "load_result option"
  isARActive :: bool
  hasWebXR :: bool
  isIOS :: bool
  arVideoElement :: "nat option"
  orientationListeners :: nat
  \<comment> \<open>the page\<close>
  arButton_disabled :: bool
  arButton_textContent :: string
  arButton_title :: string
  loadingDiv_textContent :: string
  loadingDiv_shown :: bool
  errorDiv_textContent :: string
  errorDiv_shown :: bool
  body_arMode :: bool
  \<comment> \<open>history\<close>
  calls :: "event list"

definition emit :: "event \<Rightarrow> state \<Rightarrow> state" where
  "emit e s = s\<lparr>calls := calls s @ [e]\<rparr>"

text \<open>The calls made between an earlier state and a later one.\<close>

definition new_calls :: "state \<Rightarrow> state \<Rightarrow> event list" where
  "new_calls s s' = drop (length (calls s)) (calls s')"

subsection \<open>Scene graph primitives of the graphics library\<close>

text \<open>
  \<open>Object3D.add\<close> detaches the object from its parent before pushing it at the end of the
  child list; \<open>Object3D.remove\<close> splices out the first index at which the object is found.
\<close>

definition scene_remove :: "oid \<Rightarrow> state \<Rightarrow> state" where
  "scene_remove i s = s\<lparr>scene := remove1 i (scene s)\<rparr>"

definition scene_add :: "oid \<Rightarrow> state \<Rightarrow> state" where
  "scene_add i s = s\<lparr>scene := remove1 i (scene s) @ [i]\<rparr>"

definition new_object :: "object3d \<Rightarrow> state \<Rightarrow> oid \<times> state" where
  "new_object ob s = (next_oid s, s\<lparr>heap := (heap s)(next_oid s := ob), next_oid := Suc (next_oid s)\<rparr>)"

definition update_object :: "oid \<Rightarrow> (object3d \<Rightarrow> object3d) \<Rightarrow> state \<Rightarrow> state" where
  "update_object i f s = s\<lparr>heap := (heap s)(i := f (heap s i))\<rparr>"

subsection \<open>ModelLoader\<close>

text \<open>
  Reading and parsing are the platform's and the graphics library's work. Their outcome
  for one file is an input of the model: the read fails; the parser reports a failure (for
  glTF through its error callback); the parser throws while it runs inside the reader's
  \<open>onload\<close> handler; or the parser yields a scene whose centring offset, fitting scale and
  animations (computed by \<open>processModel\<close> from the bounding box, in floating point) are
  given.
\<close>

datatype parse_outcome =
    ReadFailed
  | ParseFailed error
  | ParserThrew error
  | Parsed vec3 vec3 "nat list"

text \<open>
  What becomes of the promise a loader returns: it is rejected with a thrown value, it is
  resolved with a value, or it is never settled, and then whoever awaits it never resumes.
\<close>

datatype 'a promise = Rejected error | Resolved 'a | Pending

text \<open>
  \<open>loadGLTF\<close> rejects from the reader's \<open>onerror\<close> and from the parser's error callback
  only. A throw of the parser inside \<open>onload\<close> is caught by nothing there, so the promise
  stays pending.
\<close>

definition loadGLTF :: "model_file \<Rightarrow> parse_outcome \<Rightarrow> state \<Rightarrow> load_result promise \<times> state" where
  "loadGLTF f po s =
     (let s1 = emit (Call_loadGLTF f) s in
      case po of
        ReadFailed \<Rightarrow> (Rejected (Error (Some ''Failed to read file'')), s1)
      | ParseFailed e \<Rightarrow>
          (Rejected (Error (Some (''Failed to parse glTF file: ''
                 @ (case e of Error None \<Rightarrow> ''Unknown error''
                            | Error (Some m) \<Rightarrow> if m = [] then ''Unknown error'' else m)))), s1)
      | ParserThrew e \<Rightarrow> (Pending, s1)
      | Parsed pos sc anims \<Rightarrow>
          (let (i, s2) = new_object \<lparr>kind = ModelObject, position = pos, scale = sc,
                                      visible = True, intensity = 0\<rparr> s1
           in (Resolved \<lparr>model = i, animations = anims, mtype = GLTF\<rparr>, s2)))"

text \<open>
  \<open>loadSTL\<close> parses inside a \<open>try\<close> block whose \<open>catch\<close> rejects with the thrown value;
  the STL parser has no error callback, so both kinds of parser failure end there.
\<close>

definition loadSTL :: "model_file \<Rightarrow> parse_outcome \<Rightarrow> state \<Rightarrow> load_result promise \<times> state" where
  "loadSTL f po s =
     (let s1 = emit (Call_loadSTL f) s in
      case po of
        ReadFailed \<Rightarrow> (Rejected (Error None), s1)
      | ParseFailed e \<Rightarrow> (Rejected e, s1)
      | ParserThrew e \<Rightarrow> (Rejected e, s1)
      | Parsed pos sc anims \<Rightarrow>
          (let (i, s2) = new_object \<lparr>kind = ModelObject, position = pos, scale = sc,
                                      visible = True, intensity = 0\<rparr> s1
           in (Resolved \<lparr>model = i, animations = [], mtype = STL\<rparr>, s2)))"

definition ModelLoader_loadModel ::
  "model_file \<Rightarrow> parse_outcome \<Rightarrow> state \<Rightarrow> load_result promise \<times> state" where
  "ModelLoader_loadModel f po s =
     (let fileName = toLowerCase (file_name f) in
      if endsWith fileName ''.glb'' \<or> endsWith fileName ''.gltf'' then loadGLTF f po s
      else if endsWith fileName ''.stl'' then loadSTL f po s
      else (Rejected (Error (Some (''Unsupported file format: '' @ fileName))), s))"

subsection \<open>ModelViewer\<close>

definition clearCurrentModel :: "state \<Rightarrow> state" where
  "clearCurrentModel s =
     (case mv_currentModel s of
        None \<Rightarrow> s
      | Some m \<Rightarrow> (scene_remove m s)\<lparr>mv_currentModel := None\<rparr>)"

subsection \<open>ARMode\<close>

text \<open>Reading a property of \<open>null\<close> throws a type error; its message names the property.\<close>

definition null_deref :: "string \<Rightarrow> error" where
  "null_deref prop = Error (Some (''Cannot read properties of null (reading '' @ prop @ '')''))"

datatype xr_query = NoXR | QueryAnswered bool | QueryFailed

definition checkARSupport :: "xr_query \<Rightarrow> state \<Rightarrow> state" where
  "checkARSupport q s =
     (case q of
        NoXR \<Rightarrow> s
      | QueryAnswered b \<Rightarrow> s\<lparr>isARSupported := b\<rparr>
      | QueryFailed \<Rightarrow> s\<lparr>isARSupported := False\<rparr>)"

text \<open>
  What the platform answers to the four requests of a session start, in the order the
  code awaits them.
\<close>

record xr_env =
  requestSession_result :: "error + xr_session"
  localFloor_result :: "error + nat"
  viewerSpace_result :: "error + nat"
  hitTestSource_result :: "error + nat"

definition set_light_intensity :: "kind \<Rightarrow> real \<Rightarrow> state \<Rightarrow> state" where
  "set_light_intensity k v s =
     (case List.find (\<lambda>i. kind (heap s i) = k) (lights s) of
        None \<Rightarrow> s
      | Some i \<Rightarrow> update_object i (\<lambda>ob. ob\<lparr>intensity := v\<rparr>) s)"

definition setupARLighting :: "state \<Rightarrow> (error + unit) \<times> state" where
  "setupARLighting s =
     (let s1 = set_light_intensity AmbientLight 0.3 s in
      case xrSession s1 of
        None \<Rightarrow> (Inl (null_deref ''environmentBlendMode''), s1)
      | Some x \<Rightarrow>
          if environmentBlendMode x = Additive
          then (Inr (), set_light_intensity DirectionalLight 0.5 s1)
          else (Inr (), s1))"

definition setupXRSession :: "xr_env \<Rightarrow> state \<Rightarrow> (error + unit) \<times> state" where
  "setupXRSession env s =
     (case xrSession s of
        None \<Rightarrow> (Inl (null_deref ''requestReferenceSpace''), s)
      | Some x \<Rightarrow>
          (let s1 = emit (XR_requestReferenceSpace ''local-floor'') s in
           case localFloor_result env of
             Inl e \<Rightarrow> (Inl e, s1)
           | Inr sp \<Rightarrow> setupARLighting (s1\<lparr>xrRefSpace := Some sp\<rparr>)))"

definition createReticle :: "state \<Rightarrow> state" where
  "createReticle s =
     (let (i, s1) = new_object \<lparr>kind = ReticleMesh, position = (0, 0, 0), scale = (1, 1, 1),
                                 visible = False, intensity = 0\<rparr> s
      in (scene_add i s1)\<lparr>reticle := Some i\<rparr>)"

definition setupHitTest :: "xr_env \<Rightarrow> state \<Rightarrow> (error + unit) \<times> state" where
  "setupHitTest env s =
     (case xrSession s of
        None \<Rightarrow> (Inl (null_deref ''requestReferenceSpace''), s)
      | Some x \<Rightarrow>
          (let s1 = emit (XR_requestReferenceSpace ''viewer'') s in
           case viewerSpace_result env of
             Inl e \<Rightarrow> (Inl e, s1)
           | Inr vs \<Rightarrow>
               (let s2 = emit XR_requestHitTestSource s1 in
                case hitTestSource_result env of
                  Inl e \<Rightarrow> (Inl e, s2)
                | Inr h \<Rightarrow> (Inr (), s2\<lparr>xrHitTestSource := Some h\<rparr>))))"

definition startARSession :: "xr_env \<Rightarrow> state \<Rightarrow> (error + bool) \<times> state" where
  "startARSession env s0 =
     (let s = emit Call_startARSession s0 in
      if \<not> isARSupported s then (Inl (Error (Some ''AR not supported on this device'')), s)
      else
        (let s1 = emit (XR_requestSession ''immersive-ar'' [''hit-test'']) s in
         case requestSession_result env of
           Inl e \<Rightarrow> (Inl e, s1)
         | Inr x \<Rightarrow>
             (case setupXRSession env (s1\<lparr>xrSession := Some x\<rparr>) of
                (Inl e, s2) \<Rightarrow> (Inl e, s2)
              | (Inr _, s2) \<Rightarrow>
                  (let s3 = createReticle (s2\<lparr>xrEnabled := True, rendererSession := xrSession s2\<rparr>) in
                   case setupHitTest env s3 of
                     (Inl e, s4) \<Rightarrow> (Inl e, s4)
                   | (Inr _, s4) \<Rightarrow>
                       (case xrSession s4 of
                          None \<Rightarrow> (Inl (null_deref ''addEventListener''), s4)
                        | Some y \<Rightarrow>
                            (Inr True, s4\<lparr>endListeners := endListeners s4 @ [session_id y]\<rparr>))))))"

text \<open>
  A pose is kept as the translation of its matrix; the rotation is not represented. The
  reticle has no automatic matrix update, so writing its matrix is writing its place.

  The matrix of a pose is a plain array of sixteen numbers, which is what \<open>onXRFrame\<close>
  hands to \<open>fromArray\<close>. \<open>placeModel\<close> hands the same array to \<open>setFromMatrixPosition\<close>,
  which reads the \<open>elements\<close> of a matrix object: on the array that property is undefined
  and reading its entry throws. So \<open>placeModel\<close> clones the current model and throws; its
  later statements (removing the previous placed model, adding the clone, storing it,
  hiding the reticle) are never reached.
\<close>

definition placeModel :: "vec3 \<Rightarrow> state \<Rightarrow> error option \<times> state" where
  "placeModel hitPose s =
     (case mv_currentModel s of
        None \<Rightarrow> (None, s)
      | Some m \<Rightarrow>
          (let (modelClone, s1) = new_object (heap s m) s
           in (Some (Error (Some ''Cannot read properties of undefined (reading 12)'')), s1)))"

definition resetLighting :: "state \<Rightarrow> state" where
  "resetLighting s = set_light_intensity DirectionalLight 0.8 (set_light_intensity AmbientLight 0.6 s)"

definition onSessionEnd :: "state \<Rightarrow> state" where
  "onSessionEnd s =
     (let s1 = s\<lparr>xrSession := None, xrRefSpace := None, xrHitTestSource := None\<rparr>;
          s2 = (case reticle s1 of
                  None \<Rightarrow> s1
                | Some r \<Rightarrow> (scene_remove r s1)\<lparr>reticle := None\<rparr>);
          s3 = (case placedModel s2 of
                  None \<Rightarrow> s2
                | Some p \<Rightarrow> (scene_remove p s2)\<lparr>placedModel := None\<rparr>)
      in resetLighting (s3\<lparr>xrEnabled := False\<rparr>))"

text \<open>
  The platform delivers the session's \<open>end\<close> event to the listeners registered on that
  session, whether the page or the device ended it.
\<close>

definition session_ended :: "nat \<Rightarrow> state \<Rightarrow> state" where
  "session_ended n s = (if n \<in> set (endListeners s) then onSessionEnd s else s)"

definition endARSession :: "state \<Rightarrow> state" where
  "endARSession s = (case xrSession s of None \<Rightarrow> s | Some x \<Rightarrow> emit XR_sessionEnd s)"

text \<open>
  One frame as the platform presents it: for each hit-test result the pose it has in the
  reference space (or none), and for each input source its gamepad's button states (or no
  gamepad).
\<close>

record xr_frame =
  hitTestResults :: "vec3 option list"
  inputSources :: "bool list option list"

text \<open>
  The loop over the input sources: it stops at the first source whose gamepad has its
  first button pressed; a gamepad without buttons makes \<open>buttons[0].pressed\<close> throw.
\<close>

fun tapped :: "bool list option list \<Rightarrow> error + bool" where
  "tapped [] = Inr False"
| "tapped (None # rest) = tapped rest"
| "tapped (Some [] # rest) = Inl (Error (Some ''Cannot read properties of undefined (reading pressed)''))"
| "tapped (Some (b # bs) # rest) = (if b then Inr True else tapped rest)"

definition onXRFrame :: "xr_frame \<Rightarrow> state \<Rightarrow> error option \<times> state" where
  "onXRFrame frame s =
     (case xrHitTestSource s of
        None \<Rightarrow> (None, s)
      | Some src \<Rightarrow>
          (let s1 = emit XR_getHitTestResults s in
           case hitTestResults frame of
             [] \<Rightarrow>
               (case reticle s1 of
                  None \<Rightarrow> (Some (null_deref ''visible''), s1)
                | Some r \<Rightarrow> (None, update_object r (\<lambda>ob. ob\<lparr>visible := False\<rparr>) s1))
           | hit # others \<Rightarrow>
               (case hit of
                  None \<Rightarrow> (None, s1)
                | Some pose \<Rightarrow>
                    (case reticle s1 of
                       None \<Rightarrow> (Some (null_deref ''visible''), s1)
                     | Some r \<Rightarrow>
                         (let s2 = update_object r (\<lambda>ob. ob\<lparr>visible := True, position := pose\<rparr>) s1 in
                          case xrSession s2 of
                            None \<Rightarrow> (Some (null_deref ''inputSources''), s2)
                          | Some x \<Rightarrow>
                              (case tapped (inputSources frame) of
                                 Inl e \<Rightarrow> (Some e, s2)
                               | Inr pressed \<Rightarrow>
                                   if pressed then placeModel pose s2 else (None, s2)))))))"

section \<open>WebGLARApp\<close>

subsection \<open>Page helpers\<close>

definition showLoading :: "string \<Rightarrow> state \<Rightarrow> state" where
  "showLoading msg s = s\<lparr>loadingDiv_textContent := msg, loadingDiv_shown := True\<rparr>"

definition hideLoading :: "state \<Rightarrow> state" where
  "hideLoading s = s\<lparr>loadingDiv_shown := False\<rparr>"

definition showError :: "string \<Rightarrow> state \<Rightarrow> state" where
  "showError msg s = emit (UI_showError msg) (s\<lparr>errorDiv_textContent := msg, errorDiv_shown := True\<rparr>)"

definition hideError :: "state \<Rightarrow> state" where
  "hideError s = s\<lparr>errorDiv_shown := False\<rparr>"

text \<open>
  A case-insensitive regular expression that is an alternation of literal words, tested
  against a string: some word occurs in it, letter case aside.
\<close>

fun occurs_in :: "string \<Rightarrow> string \<Rightarrow> bool" where
  "occurs_in [] p = (p = [])"
| "occurs_in (c # cs) p = (take (length p) (c # cs) = p \<or> occurs_in cs p)"

definition test_ci :: "string list \<Rightarrow> string \<Rightarrow> bool" where
  "test_ci alts str = list_ex (\<lambda>p. occurs_in (toLowerCase str) (toLowerCase p)) alts"

text \<open>
  The four characters that open the simulation's messages in the source file, as the nine
  bytes of their UTF-8 encoding there.
\<close>

definition phone :: string where
  "phone = [CHR 0xEF, CHR 0xA3, CHR 0xBF, CHR 0xC3, CHR 0xBC, CHR 0xC3, CHR 0xAC, CHR 0xC2, CHR 0xB1]"

subsection \<open>Construction\<close>

text \<open>
  The state after the constructor: the viewer's scene holds the three lights, nothing is
  loaded and no session exists. The AR button's first state comes from the page's markup,
  which is an input here, as is the browser's user-agent string.
\<close>

definition blank_object :: object3d where
  "blank_object = \<lparr>kind = PointLight, position = (0, 0, 0), scale = (1, 1, 1),
                    visible = True, intensity = 0\<rparr>"

definition init_state :: "string \<Rightarrow> bool \<Rightarrow> string \<Rightarrow> state" where
  "init_state userAgent button_disabled button_text =
     \<lparr>heap = (\<lambda>i. blank_object)
          (0 := blank_object\<lparr>kind := AmbientLight, intensity := 0.6\<rparr>,
           1 := blank_object\<lparr>kind := DirectionalLight, position := (5, 5, 5), intensity := 0.8\<rparr>,
           2 := blank_object\<lparr>kind := PointLight, position := (-5, 5, -5), intensity := 0.3\<rparr>),
      next_oid = 3,
      scene = [0, 1, 2],
      background = Some 0xf0f0f0,
      clearColor = (0, 1),
      mv_currentModel = None,
      lights = [0, 1, 2],
      cameraPosition = (0, 0, 5),
      xrEnabled = False,
      rendererSession = None,
      animationLoop = False,
      xrSession = None,
      xrRefSpace = None,
      xrHitTestSource = None,
      placedModel = None,
      reticle = None,
      isARSupported = False,
      endListeners = [],
      app_currentModel = None,
      isARActive = False,
      hasWebXR = False,
      isIOS = test_ci [''iPhone'', ''iPad'', ''iPod''] userAgent,
      arVideoElement = None,
      orientationListeners = 0,
      arButton_disabled = button_disabled,
      arButton_textContent = button_text,
      arButton_title = [],
      loadingDiv_textContent = [],
      loadingDiv_shown = False,
      errorDiv_textContent = [],
      errorDiv_shown = False,
      body_arMode = False,
      calls = []\<rparr>"

subsection \<open>checkWebXRSupport\<close>

text \<open>What \<open>WebXRUtils.checkWebXRSupport\<close> resolves with, as far as the controller reads it.\<close>

record xr_support =
  ar :: bool
  reason :: string

definition checkWebXRSupport :: "string \<Rightarrow> error + xr_support \<Rightarrow> state \<Rightarrow> state" where
  "checkWebXRSupport userAgent outcome s =
     (case outcome of
        Inl e \<Rightarrow>
          showError (''WebXR support check failed: '' @ message_text e)
            (s\<lparr>arButton_disabled := True, arButton_textContent := ''AR Check Failed''\<rparr>)
      | Inr support \<Rightarrow>
          if ar support
          then s\<lparr>hasWebXR := True, arButton_disabled := False,
                 arButton_textContent := ''Enter AR Mode''\<rparr>
          else
            (let s1 = s\<lparr>hasWebXR := False\<rparr>;
                 s2 = (if isIOS s1 \<and> app_currentModel s1 \<noteq> None
                       then s1\<lparr>arButton_disabled := False,
                               arButton_textContent := ''AR Simulation'',
                               arButton_title := ''Fallback AR mode for iOS (no WebXR)''\<rparr>
                       else if isIOS s1
                       then s1\<lparr>arButton_disabled := True,
                               arButton_textContent := ''Load Model First'',
                               arButton_title := reason support\<rparr>
                       else s1\<lparr>arButton_disabled := True,
                               arButton_textContent := ''AR Not Supported'',
                               arButton_title := reason support\<rparr>)
             in if test_ci [''Mobi'', ''Android''] userAgent
                then showError (''AR Debug: '' @ reason support @ ''. Device: ''
                                  @ take 50 userAgent @ ''...'') s2
                else s2))"

subsection \<open>loadModel\<close>

definition loadModel_catch :: "error \<Rightarrow> state \<Rightarrow> state" where
  "loadModel_catch e s = hideLoading (showError (''Failed to load model: '' @ message_text e) s)"

text \<open>
  When the loader's promise is never settled, \<open>loadModel\<close> never leaves its \<open>await\<close>: the
  state stays as it was when the loader was called.
\<close>

definition loadModel :: "model_file \<Rightarrow> parse_outcome \<Rightarrow> state \<Rightarrow> state" where
  "loadModel f po s =
     (case validateFile f of
        Inl e \<Rightarrow> loadModel_catch e s
      | Inr ok \<Rightarrow>
          (let s1 = hideError (showLoading ''Loading model...'' s) in
           case ModelLoader_loadModel f po s1 of
             (Rejected e, s2) \<Rightarrow> loadModel_catch e s2
           | (Pending, s2) \<Rightarrow> s2
           | (Resolved result, s2) \<Rightarrow>
               (let s3 = clearCurrentModel s2;
                    s4 = (scene_add (model result) s3)
                           \<lparr>mv_currentModel := Some (model result),
                            app_currentModel := Some result\<rparr>;
                    s5 = (if hasWebXR s4
                          then s4\<lparr>arButton_disabled := False,
                                  arButton_textContent := ''Enter AR Mode''\<rparr>
                          else if isIOS s4
                          then s4\<lparr>arButton_disabled := False,
                                  arButton_textContent := ''AR Simulation'',
                                  arButton_title := ''iOS AR simulation mode (no WebXR)''\<rparr>
                          else s4)
                in hideLoading s5)))"

subsection \<open>Entering and leaving AR\<close>

datatype orientation_api =
  NoOrientationAPI | NoPermissionAPI | PermissionGranted | PermissionDenied | PermissionRejected

text \<open>
  What the platform answers while AR is entered: the four XR requests, the camera request
  (a stream or a thrown value) and the device-orientation interface.
\<close>

record ar_env =
  xr :: xr_env
  camera_result :: "error + nat"
  orientation :: orientation_api

definition enableDeviceOrientation :: "ar_env \<Rightarrow> state \<Rightarrow> state" where
  "enableDeviceOrientation env s =
     (case orientation env of
        NoPermissionAPI \<Rightarrow> s\<lparr>orientationListeners := Suc (orientationListeners s)\<rparr>
      | PermissionGranted \<Rightarrow> s\<lparr>orientationListeners := Suc (orientationListeners s)\<rparr>
      | _ \<Rightarrow> s)"

definition setupCameraBackground :: "ar_env \<Rightarrow> state \<Rightarrow> (error + unit) \<times> state" where
  "setupCameraBackground env s =
     (let s1 = emit Media_getUserMedia s in
      case camera_result env of
        Inl e \<Rightarrow> (Inl (Error (Some (''Camera access failed: '' @ message_text e))), s1)
      | Inr stream \<Rightarrow> (Inr (), s1\<lparr>arVideoElement := Some stream\<rparr>))"

definition place_on_surface :: "state \<Rightarrow> state" where
  "place_on_surface s =
     (case app_currentModel s of
        None \<Rightarrow> s
      | Some r \<Rightarrow>
          update_object (model r) (\<lambda>ob. ob\<lparr>position := (0, -0.5, 0), scale := (0.3, 0.3, 0.3)\<rparr>) s)"

definition startBasicARSimulation :: "ar_env \<Rightarrow> state \<Rightarrow> state" where
  "startBasicARSimulation env s0 =
     (let s = emit Call_startBasicARSimulation s0;
          s1 = s\<lparr>isARActive := True, arButton_textContent := ''Exit AR Simulation'',
                 body_arMode := True, cameraPosition := (0, 0, 3), background := Some 0x87CEEB\<rparr>;
          s2 = place_on_surface s1;
          s3 = showError (phone @ '' Basic AR Simulation: Move your device to view the model from different angles.'') s2
      in if orientation env \<noteq> NoOrientationAPI then enableDeviceOrientation env s3 else s3)"

definition startARSimulation :: "ar_env \<Rightarrow> state \<Rightarrow> state" where
  "startARSimulation env s0 =
     (let s = emit Call_startARSimulation s0 in
      case setupCameraBackground env s of
        (Inl e, s1) \<Rightarrow>
          startBasicARSimulation env
            (showError (phone @ '' Camera access denied. Using basic AR simulation without camera.'') s1)
      | (Inr ok, s1) \<Rightarrow>
          (let s2 = s1\<lparr>isARActive := True, arButton_textContent := ''Exit AR Simulation'',
                       body_arMode := True, cameraPosition := (0, 0, 3),
                       background := None, clearColor := (0, 0)\<rparr>;
               s3 = place_on_surface s2;
               s4 = showError (phone @ '' iOS AR Simulation: Camera active! Move your device to view the model. The model appears on a virtual surface.'') s3
           in if orientation env \<noteq> NoOrientationAPI then enableDeviceOrientation env s4 else s4))"

text \<open>
  \<open>enterAR\<close> does not await \<open>startARSimulation\<close>: its own \<open>hideLoading\<close> runs while the
  camera request is pending, before the simulation's remaining steps. The two write
  different fields, so the state once both are done is the one computed here.
\<close>

definition enterAR :: "ar_env \<Rightarrow> state \<Rightarrow> state" where
  "enterAR env s0 =
     (let s = emit Call_enterAR s0 in
      if app_currentModel s = None then showError ''Please load a 3D model first'' s
      else
        (let s1 = showLoading ''Starting AR session...'' s in
         if hasWebXR s1
         then (case startARSession (xr env) s1 of
                 (Inl e, s2) \<Rightarrow> hideLoading (showError (''AR failed: '' @ message_text e) s2)
               | (Inr ok, s2) \<Rightarrow>
                   hideLoading (s2\<lparr>isARActive := True, arButton_textContent := ''Exit AR'',
                                   body_arMode := True, animationLoop := True\<rparr>))
         else hideLoading (startARSimulation env s1)))"

definition exitAR :: "state \<Rightarrow> state" where
  "exitAR s0 =
     (let s = emit Call_exitAR s0;
          s1 = (if hasWebXR s
                then (endARSession s)\<lparr>animationLoop := False\<rparr>
                else
                  (let a = s\<lparr>arVideoElement := None\<rparr>;
                       b = a\<lparr>cameraPosition := (0, 0, 5), background := Some 0xf0f0f0,
                             clearColor := (0xf0f0f0, 1)\<rparr>;
                       c = (case app_currentModel b of
                              None \<Rightarrow> b
                            | Some r \<Rightarrow>
                                update_object (model r)
                                  (\<lambda>ob. ob\<lparr>position := (0, 0, 0), scale := (1, 1, 1)\<rparr>) b)
                   in hideError c))
      in s1\<lparr>isARActive := False,
            arButton_textContent := (if hasWebXR s1 then ''Enter AR Mode'' else ''AR Simulation''),
            body_arMode := False\<rparr>)"

subsection \<open>Event listeners\<close>

text \<open>The listener \<open>setupEventListeners\<close> puts on the AR button.\<close>

definition arButton_onClick :: "ar_env \<Rightarrow> state \<Rightarrow> state" where
  "arButton_onClick env s = (if isARActive s then exitAR s else enterAR env s)"

text \<open>A press of the button: the browser delivers no click to a disabled button.\<close>

definition press_arButton :: "ar_env \<Rightarrow> state \<Rightarrow> state" where
  "press_arButton env s = (if arButton_disabled s then s else arButton_onClick env s)"

text \<open>
  The listeners of the file input and of the drop zone: both hand the first file, when
  there is one, to \<open>loadModel\<close>.
\<close>

definition files_chosen :: "(model_file \<times> parse_outcome) list \<Rightarrow> state \<Rightarrow> state" where
  "files_chosen fs s = (case fs of [] \<Rightarrow> s | (f, po) # rest \<Rightarrow> loadModel f po s)"

section \<open>Runs of the page\<close>

text \<open>
  The page reacts to events: the two support checks started by the constructors resolve,
  files are chosen or dropped, the AR button is pressed, the renderer's frame loop (set
  while a WebXR session runs) presents a frame, a session ends. Every handler is taken to
  run to its end with the platform's answers at hand; interleavings of handlers that are
  pending at the same time are not represented.
\<close>

inductive reachable :: "state \<Rightarrow> bool" where
  constructed: "reachable (init_state userAgent button_disabled button_text)"
| ar_support_checked: "reachable s \<Longrightarrow> reachable (checkARSupport q s)"
| webxr_support_checked: "reachable s \<Longrightarrow> reachable (checkWebXRSupport userAgent outcome s)"
| files_given: "reachable s \<Longrightarrow> reachable (files_chosen fs s)"
| button_pressed: "reachable s \<Longrightarrow> reachable (press_arButton env s)"
| frame_presented: "reachable s \<Longrightarrow> animationLoop s \<Longrightarrow> reachable (snd (onXRFrame frame s))"
| session_over: "reachable s \<Longrightarrow> reachable (session_ended n s)"

subsection \<open>Observations\<close>

text \<open>The model objects among the scene's children, in the order of the child list.\<close>

definition scene_models :: "state \<Rightarrow> oid list" where
  "scene_models s = filter (\<lambda>i. kind (heap s i) = ModelObject) (scene s)"

definition parsed_ok :: "parse_outcome \<Rightarrow> bool" where
  "parsed_ok po = (case po of Parsed pos sc anims \<Rightarrow> True | _ \<Rightarrow> False)"

text \<open>The messages handed to \<open>showError\<close>, the parser calls and the session requests of a history.\<close>

fun shown_messages :: "event list \<Rightarrow> string list" where
  "shown_messages [] = []"
| "shown_messages (UI_showError m # es) = m # shown_messages es"
| "shown_messages (e # es) = shown_messages es"

fun is_parser_call :: "event \<Rightarrow> bool" where
  "is_parser_call (Call_loadGLTF f) = True"
| "is_parser_call (Call_loadSTL f) = True"
| "is_parser_call e = False"

fun is_session_request :: "event \<Rightarrow> bool" where
  "is_session_request (XR_requestSession mode features) = True"
| "is_session_request e = False"

text \<open>Some message of a list contains the given text.\<close>

definition mentions :: "string \<Rightarrow> string list \<Rightarrow> bool" where
  "mentions p ms = list_ex (\<lambda>m. occurs_in m p) ms"

text \<open>The platform calls of a session start that runs to its end, in the order they are made.\<close>

definition session_setup_order :: "event list" where
  "session_setup_order =
     [Call_startARSession,
      XR_requestSession ''immersive-ar'' [''hit-test''],
      XR_requestReferenceSpace ''local-floor'',
      XR_requestReferenceSpace ''viewer'',
      XR_requestHitTestSource]"

text \<open>
  The facts about identities that every run keeps: the scene lists no object twice and
  only objects that exist; the viewer's current model is a model object in the scene;
  nothing is stored as the placed model; the reticle is a reticle; every model object in
  the scene is the current model; and the controller's current result is about the
  viewer's current model.
\<close>

definition scene_inv :: "state \<Rightarrow> bool" where
  "scene_inv s \<longleftrightarrow>
     distinct (scene s)
     \<and> (\<forall>i \<in> set (scene s). i < next_oid s)
     \<and> (\<forall>m. mv_currentModel s = Some m \<longrightarrow>
            m < next_oid s \<and> m \<in> set (scene s) \<and> kind (heap s m) = ModelObject)
     \<and> placedModel s = None
     \<and> (\<forall>r. reticle s = Some r \<longrightarrow> r < next_oid s \<and> kind (heap s r) = ReticleMesh)
     \<and> (\<forall>i \<in> set (scene s). kind (heap s i) = ModelObject \<longrightarrow> mv_currentModel s = Some i)
     \<and> map_option model (app_currentModel s) = mv_currentModel s"

subsection \<open>Concrete runs\<close>

text \<open>
  A phone with WebXR: the page is built, both support checks answer yes, a glTF file is
  loaded, the AR button starts a session, a frame shows a hit while the trigger is
  pressed, the AR button is pressed again, and the session's end event arrives.
\<close>

definition chair :: model_file where
  "chair = \<lparr>file_name = ''chair.glb'', file_size = 2048\<rparr>"

definition xr_ok :: xr_env where
  "xr_ok = \<lparr>requestSession_result = Inr \<lparr>session_id = 1, environmentBlendMode = AlphaBlend\<rparr>,
            localFloor_result = Inr 1, viewerSpace_result = Inr 2, hitTestSource_result = Inr 3\<rparr>"

definition env_ok :: ar_env where
  "env_ok = \<lparr>xr = xr_ok, camera_result = Inr 1, orientation = NoPermissionAPI\<rparr>"

definition tap_frame :: xr_frame where
  "tap_frame = \<lparr>hitTestResults = [Some (1, 0, -2)], inputSources = [Some [True]]\<rparr>"

definition run_checked :: state where
  "run_checked =
     checkWebXRSupport ''Android'' (Inr \<lparr>ar = True, reason = ''WebXR supported''\<rparr>)
       (checkARSupport (QueryAnswered True) (init_state ''Android'' True ''Enter AR Mode''))"

definition run_loaded :: state where
  "run_loaded = files_chosen [(chair, Parsed (0, 0, 0) (1, 1, 1) [])] run_checked"

definition run_session :: state where
  "run_session = press_arButton env_ok run_loaded"

definition run_tapped :: state where
  "run_tapped = snd (onXRFrame tap_frame run_session)"

definition run_exited :: state where
  "run_exited = press_arButton env_ok run_tapped"

definition run_ended :: state where
  "run_ended = session_ended 1 run_exited"

text \<open>
  The same phone, but the platform grants the session and then refuses the \<open>local-floor\<close>
  reference space; the AR button is pressed once more and the platform grants a second
  session.
\<close>

definition env_floor_refused :: ar_env where
  "env_floor_refused =
     \<lparr>xr = xr_ok\<lparr>localFloor_result := Inl (Error (Some ''Reference space refused''))\<rparr>,
      camera_result = Inr 1, orientation = NoPermissionAPI\<rparr>"

definition env_second :: ar_env where
  "env_second =
     \<lparr>xr = xr_ok\<lparr>requestSession_result :=
                     Inr \<lparr>session_id = 2, environmentBlendMode = AlphaBlend\<rparr>\<rparr>,
      camera_result = Inr 1, orientation = NoPermissionAPI\<rparr>"

definition half_started :: state where
  "half_started = press_arButton env_floor_refused run_loaded"

definition pressed_again :: state where
  "pressed_again = press_arButton env_second half_started"

text \<open>
  A desktop browser without WebXR: the support check answers no, then a file is loaded.
\<close>

definition no_xr :: xr_support where
  "no_xr = \<lparr>ar = False, reason = ''WebXR not available in this browser''\<rparr>"

definition desktop_loaded :: state where
  "desktop_loaded =
     files_chosen [(chair, Parsed (0, 0, 0) (1, 1, 1) [])]
       (checkWebXRSupport ''Firefox'' (Inr no_xr)
         (init_state ''Firefox'' True ''Enter AR Mode''))"

text \<open>
  An iPhone without WebXR: the support check answers no, a file is loaded, and the camera
  request is refused when AR is entered.
\<close>

definition iphone_loaded :: state where
  "iphone_loaded =
     files_chosen [(chair, Parsed (0, 0, 0) (1, 1, 1) [])]
       (checkWebXRSupport ''iPhone'' (Inr no_xr) (init_state ''iPhone'' True ''Enter AR Mode''))"

text \<open>Two files that do not load, and a platform that refuses the session.\<close>

definition notes_txt :: model_file where
  "notes_txt = \<lparr>file_name = ''notes.txt'', file_size = 9\<rparr>"

definition broken :: model_file where
  "broken = \<lparr>file_name = ''broken.glb'', file_size = 9\<rparr>"

definition env_session_rejected :: ar_env where
  "env_session_rejected =
     \<lparr>xr = xr_ok\<lparr>requestSession_result := Inl (Error (Some ''Session refused''))\<rparr>,
      camera_result = Inr 1, orientation = NoPermissionAPI\<rparr>"

definition env_camera_denied :: ar_env where
  "env_camera_denied = \<lparr>xr = xr_ok, camera_result = Inl (Error (Some ''Permission denied'')),
                        orientation = NoPermissionAPI\<rparr>"

section \<open>Properties of the file checks\<close>

lemmas page_defs = showLoading_def hideLoading_def showError_def hideError_def emit_def

lemmas loader_defs = ModelLoader_loadModel_def loadGLTF_def loadSTL_def new_object_def

lemmas op_defs = emit_def new_calls_def scene_remove_def scene_add_def new_object_def update_object_def
  loadGLTF_def loadSTL_def clearCurrentModel_def checkARSupport_def
  set_light_intensity_def setupARLighting_def setupXRSession_def createReticle_def setupHitTest_def
  startARSession_def placeModel_def resetLighting_def onSessionEnd_def session_ended_def
  endARSession_def onXRFrame_def showLoading_def hideLoading_def showError_def hideError_def
  init_state_def checkWebXRSupport_def loadModel_catch_def loadModel_def
  enableDeviceOrientation_def setupCameraBackground_def place_on_surface_def
  startBasicARSimulation_def startARSimulation_def enterAR_def exitAR_def arButton_onClick_def
  press_arButton_def files_chosen_def blank_object_def Let_def

lemmas run_defs = chair_def xr_ok_def env_ok_def tap_frame_def run_checked_def run_loaded_def
  run_session_def run_tapped_def run_exited_def run_ended_def no_xr_def desktop_loaded_def iphone_loaded_def
  env_camera_denied_def notes_txt_def broken_def env_session_rejected_def
  env_floor_refused_def env_second_def half_started_def pressed_again_def

lemmas string_eval = toLowerCase_def toLowerCase_char_def endsWith_def

text \<open>\<open>endsWith\<close> is the suffix relation of the list library.\<close>

lemma endsWith_suffix: "endsWith s ext = suffix ext s"
proof
  assume "endsWith s ext"
  then have "s = take (length s - length ext) s @ ext"
    unfolding endsWith_def by (metis append_take_drop_id)
  then show "suffix ext s" by (rule suffixI)
next
  assume "suffix ext s"
  then obtain zs where "s = zs @ ext" by (auto simp: suffix_def)
  then show "endsWith s ext" by (simp add: endsWith_def)
qed

text \<open>
  C1. \<open>ModelLoader.validateFile\<close> returns \<open>true\<close> exactly when the lower-cased name ends
  with \<open>.glb\<close>, \<open>.gltf\<close> or \<open>.stl\<close> and the size is at most 50 * 1024 * 1024 bytes; a name
  with none of the three extensions makes it throw the unsupported-format error, and a
  supported name with a larger size makes it throw the file-too-large error.
\<close>

theorem validateFile_spec:
  "(validateFile f = Inr True \<longleftrightarrow>
      (suffix ''.glb'' (toLowerCase (file_name f)) \<or> suffix ''.gltf'' (toLowerCase (file_name f))
         \<or> suffix ''.stl'' (toLowerCase (file_name f)))
      \<and> file_size f \<le> 50 * 1024 * 1024)
   \<and> (\<not> (suffix ''.glb'' (toLowerCase (file_name f)) \<or> suffix ''.gltf'' (toLowerCase (file_name f))
           \<or> suffix ''.stl'' (toLowerCase (file_name f)))
        \<longrightarrow> validateFile f =
              Inl (Error (Some ''Unsupported file format. Supported formats: .glb, .gltf, .stl'')))
   \<and> ((suffix ''.glb'' (toLowerCase (file_name f)) \<or> suffix ''.gltf'' (toLowerCase (file_name f))
           \<or> suffix ''.stl'' (toLowerCase (file_name f)))
        \<and> file_size f > 50 * 1024 * 1024
        \<longrightarrow> validateFile f = Inl (Error (Some ''File too large. Maximum size: 50MB'')))"
  by (simp add: validateFile_def supportedExtensions_def maxSize_def Let_def
        endsWith_suffix[symmetric])

theorem validateFile_spec_witness:
  "validateFile \<lparr>file_name = ''Chair.GLB'', file_size = 2048\<rparr> = Inr True
   \<and> validateFile \<lparr>file_name = ''notes.txt'', file_size = 2048\<rparr> =
       Inl (Error (Some ''Unsupported file format. Supported formats: .glb, .gltf, .stl''))
   \<and> validateFile \<lparr>file_name = ''big.stl'', file_size = 52428801\<rparr> =
       Inl (Error (Some ''File too large. Maximum size: 50MB''))"
  using validateFile_spec [of "\<lparr>file_name = ''Chair.GLB'', file_size = 2048\<rparr>"]
        validateFile_spec [of "\<lparr>file_name = ''notes.txt'', file_size = 2048\<rparr>"]
        validateFile_spec [of "\<lparr>file_name = ''big.stl'', file_size = 52428801\<rparr>"]
  by (simp add: endsWith_suffix[symmetric] string_eval)

lemma suffix_last: "suffix e n \<Longrightarrow> e \<noteq> [] \<Longrightarrow> last n = last e"
  by (auto simp: suffix_def)

lemma stl_not_gltf:
  "suffix ''.stl'' n \<Longrightarrow> \<not> suffix ''.glb'' n \<and> \<not> suffix ''.gltf'' n"
  using suffix_last[of "''.stl''" n] suffix_last[of "''.glb''" n] suffix_last[of "''.gltf''" n]
  by auto

lemma new_calls_loadGLTF: "new_calls s (snd (loadGLTF f po s)) = [Call_loadGLTF f]"
  by (cases po) (simp_all add: loadGLTF_def new_calls_def emit_def new_object_def Let_def)

lemma new_calls_loadSTL: "new_calls s (snd (loadSTL f po s)) = [Call_loadSTL f]"
  by (cases po) (simp_all add: loadSTL_def new_calls_def emit_def new_object_def Let_def)

text \<open>
  C3. \<open>ModelLoader.loadModel\<close> dispatches on the extension of the lower-cased name alone:
  \<open>.glb\<close> and \<open>.gltf\<close> go to \<open>loadGLTF\<close>, \<open>.stl\<close> goes to \<open>loadSTL\<close>, and any other
  name throws the unsupported-format error with neither parser called.
\<close>

theorem ModelLoader_loadModel_dispatch:
  "(suffix ''.glb'' (toLowerCase (file_name f)) \<or> suffix ''.gltf'' (toLowerCase (file_name f))
      \<longrightarrow> ModelLoader_loadModel f po s = loadGLTF f po s
          \<and> new_calls s (snd (ModelLoader_loadModel f po s)) = [Call_loadGLTF f])
   \<and> (suffix ''.stl'' (toLowerCase (file_name f))
      \<longrightarrow> ModelLoader_loadModel f po s = loadSTL f po s
          \<and> new_calls s (snd (ModelLoader_loadModel f po s)) = [Call_loadSTL f])
   \<and> (\<not> (suffix ''.glb'' (toLowerCase (file_name f)) \<or> suffix ''.gltf'' (toLowerCase (file_name f))
           \<or> suffix ''.stl'' (toLowerCase (file_name f)))
      \<longrightarrow> ModelLoader_loadModel f po s
            = (Rejected (Error (Some (''Unsupported file format: '' @ toLowerCase (file_name f)))), s)
          \<and> new_calls s (snd (ModelLoader_loadModel f po s)) = [])"
proof (intro conjI impI)
  assume g: "suffix ''.glb'' (toLowerCase (file_name f)) \<or> suffix ''.gltf'' (toLowerCase (file_name f))"
  then show a: "ModelLoader_loadModel f po s = loadGLTF f po s"
    by (simp add: ModelLoader_loadModel_def endsWith_suffix)
  show "new_calls s (snd (ModelLoader_loadModel f po s)) = [Call_loadGLTF f]"
    by (simp only: a new_calls_loadGLTF)
next
  assume g: "suffix ''.stl'' (toLowerCase (file_name f))"
  then show a: "ModelLoader_loadModel f po s = loadSTL f po s"
    using stl_not_gltf[OF g] by (simp add: ModelLoader_loadModel_def endsWith_suffix)
  show "new_calls s (snd (ModelLoader_loadModel f po s)) = [Call_loadSTL f]"
    by (simp only: a new_calls_loadSTL)
next
  assume g: "\<not> (suffix ''.glb'' (toLowerCase (file_name f)) \<or> suffix ''.gltf'' (toLowerCase (file_name f))
           \<or> suffix ''.stl'' (toLowerCase (file_name f)))"
  then show a: "ModelLoader_loadModel f po s
            = (Rejected (Error (Some (''Unsupported file format: '' @ toLowerCase (file_name f)))), s)"
    by (simp add: ModelLoader_loadModel_def endsWith_suffix)
  show "new_calls s (snd (ModelLoader_loadModel f po s)) = []"
    by (simp add: a new_calls_def)
qed

theorem ModelLoader_loadModel_dispatch_witness:
  "new_calls run_checked
      (snd (ModelLoader_loadModel \<lparr>file_name = ''Robot.GLTF'', file_size = 7\<rparr> ReadFailed run_checked))
     = [Call_loadGLTF \<lparr>file_name = ''Robot.GLTF'', file_size = 7\<rparr>]
   \<and> new_calls run_checked
      (snd (ModelLoader_loadModel \<lparr>file_name = ''part.stl'', file_size = 7\<rparr> ReadFailed run_checked))
     = [Call_loadSTL \<lparr>file_name = ''part.stl'', file_size = 7\<rparr>]
   \<and> ModelLoader_loadModel \<lparr>file_name = ''scene.OBJ'', file_size = 7\<rparr> ReadFailed run_checked
     = (Rejected (Error (Some ''Unsupported file format: scene.obj'')), run_checked)"
  using ModelLoader_loadModel_dispatch
          [of "\<lparr>file_name = ''Robot.GLTF'', file_size = 7\<rparr>" ReadFailed run_checked]
        ModelLoader_loadModel_dispatch
          [of "\<lparr>file_name = ''part.stl'', file_size = 7\<rparr>" ReadFailed run_checked]
        ModelLoader_loadModel_dispatch
          [of "\<lparr>file_name = ''scene.OBJ'', file_size = 7\<rparr>" ReadFailed run_checked]
  by (simp add: endsWith_suffix[symmetric] string_eval new_calls_loadGLTF new_calls_loadSTL)

section \<open>Facts about the concrete runs\<close>

lemma chair_facts [simp]:
  "validateFile chair = Inr True"
  "ModelLoader_loadModel chair po s = loadGLTF chair po s"
  by (simp_all add: chair_def validateFile_def ModelLoader_loadModel_def supportedExtensions_def
        maxSize_def string_eval Let_def)

lemma agent_facts [simp]:
  "test_ci [''iPhone'', ''iPad'', ''iPod''] ''Android'' = False"
  "test_ci [''iPhone'', ''iPad'', ''iPod''] ''Firefox'' = False"
  "test_ci [''iPhone'', ''iPad'', ''iPod''] ''iPhone'' = True"
  "test_ci [''Mobi'', ''Android''] ''Android'' = True"
  "test_ci [''Mobi'', ''Android''] ''Firefox'' = False"
  "test_ci [''Mobi'', ''Android''] ''iPhone'' = False"
  by (simp_all add: test_ci_def string_eval)

lemma run_checked_fields:
  "app_currentModel run_checked = None" "\<not> isARActive run_checked"
  "hasWebXR run_checked" "isARSupported run_checked" "\<not> arButton_disabled run_checked"
  "xrHitTestSource run_checked = None" "xrSession run_checked = None"
  by (simp_all add: run_checked_def op_defs)

lemma run_loaded_fields:
  "app_currentModel run_loaded = Some \<lparr>model = 3, animations = [], mtype = GLTF\<rparr>"
  "mv_currentModel run_loaded = Some 3" "scene run_loaded = [0, 1, 2, 3]"
  "placedModel run_loaded = None" "\<not> isARActive run_loaded"
  "hasWebXR run_loaded" "isARSupported run_loaded" "\<not> arButton_disabled run_loaded"
  "xrHitTestSource run_loaded = None" "xrSession run_loaded = None" "next_oid run_loaded = 4"
  by (simp_all add: run_loaded_def run_checked_def op_defs)

lemma run_session_fields:
  "isARActive run_session" "hasWebXR run_session" "\<not> arButton_disabled run_session"
  "xrSession run_session = Some \<lparr>session_id = 1, environmentBlendMode = AlphaBlend\<rparr>"
  "xrHitTestSource run_session = Some 3" "animationLoop run_session"
  "scene run_session = [0, 1, 2, 3, 4]" "mv_currentModel run_session = Some 3"
  "reticle run_session = Some 4" "placedModel run_session = None"
  "endListeners run_session = [1]" "next_oid run_session = 5"
  by (simp_all add: run_session_def run_loaded_def run_checked_def env_ok_def xr_ok_def op_defs)

section \<open>Properties of single operations\<close>

lemma set_light_intensity_fields [simp]:
  "next_oid (set_light_intensity k v s) = next_oid s"
  "scene (set_light_intensity k v s) = scene s"
  "background (set_light_intensity k v s) = background s"
  "clearColor (set_light_intensity k v s) = clearColor s"
  "mv_currentModel (set_light_intensity k v s) = mv_currentModel s"
  "lights (set_light_intensity k v s) = lights s"
  "cameraPosition (set_light_intensity k v s) = cameraPosition s"
  "xrEnabled (set_light_intensity k v s) = xrEnabled s"
  "rendererSession (set_light_intensity k v s) = rendererSession s"
  "animationLoop (set_light_intensity k v s) = animationLoop s"
  "xrSession (set_light_intensity k v s) = xrSession s"
  "xrRefSpace (set_light_intensity k v s) = xrRefSpace s"
  "xrHitTestSource (set_light_intensity k v s) = xrHitTestSource s"
  "placedModel (set_light_intensity k v s) = placedModel s"
  "reticle (set_light_intensity k v s) = reticle s"
  "isARSupported (set_light_intensity k v s) = isARSupported s"
  "endListeners (set_light_intensity k v s) = endListeners s"
  "app_currentModel (set_light_intensity k v s) = app_currentModel s"
  "isARActive (set_light_intensity k v s) = isARActive s"
  "hasWebXR (set_light_intensity k v s) = hasWebXR s"
  "isIOS (set_light_intensity k v s) = isIOS s"
  "arVideoElement (set_light_intensity k v s) = arVideoElement s"
  "orientationListeners (set_light_intensity k v s) = orientationListeners s"
  "arButton_disabled (set_light_intensity k v s) = arButton_disabled s"
  "arButton_textContent (set_light_intensity k v s) = arButton_textContent s"
  "arButton_title (set_light_intensity k v s) = arButton_title s"
  "loadingDiv_textContent (set_light_intensity k v s) = loadingDiv_textContent s"
  "loadingDiv_shown (set_light_intensity k v s) = loadingDiv_shown s"
  "errorDiv_textContent (set_light_intensity k v s) = errorDiv_textContent s"
  "errorDiv_shown (set_light_intensity k v s) = errorDiv_shown s"
  "body_arMode (set_light_intensity k v s) = body_arMode s"
  "calls (set_light_intensity k v s) = calls s"
  "kind (heap (set_light_intensity k v s) i) = kind (heap s i)"
  by (simp_all add: set_light_intensity_def update_object_def split: option.splits)

lemma startARSession_calls:
  "new_calls s (snd (startARSession env s)) =
     (if \<not> isARSupported s then take 1 session_setup_order
      else if isl (requestSession_result env) then take 2 session_setup_order
      else if isl (localFloor_result env) then take 3 session_setup_order
      else if isl (viewerSpace_result env) then take 4 session_setup_order
      else session_setup_order)"
  by (cases "requestSession_result env"; cases "localFloor_result env";
      cases "viewerSpace_result env"; cases "hitTestSource_result env")
     (simp_all add: startARSession_def setupXRSession_def setupARLighting_def setupHitTest_def
        createReticle_def new_object_def scene_add_def emit_def new_calls_def
        session_setup_order_def Let_def)

lemma startARSession_result:
  "fst (startARSession env s) = Inr True \<longleftrightarrow>
     isARSupported s \<and> \<not> isl (requestSession_result env) \<and> \<not> isl (localFloor_result env)
     \<and> \<not> isl (viewerSpace_result env) \<and> \<not> isl (hitTestSource_result env)"
  by (cases "requestSession_result env"; cases "localFloor_result env";
      cases "viewerSpace_result env"; cases "hitTestSource_result env")
     (simp_all add: startARSession_def setupXRSession_def setupARLighting_def setupHitTest_def
        createReticle_def new_object_def scene_add_def emit_def Let_def)

lemma startARSession_source:
  "xrHitTestSource (snd (startARSession env s)) =
     (if fst (startARSession env s) = Inr True
      then (case hitTestSource_result env of Inr h \<Rightarrow> Some h | Inl e \<Rightarrow> None)
      else xrHitTestSource s)"
  by (cases "requestSession_result env"; cases "localFloor_result env";
      cases "viewerSpace_result env"; cases "hitTestSource_result env")
     (simp_all add: startARSession_def setupXRSession_def setupARLighting_def setupHitTest_def
        createReticle_def new_object_def scene_add_def emit_def Let_def)

text \<open>
  C10. With no model loaded, \<open>enterAR\<close> shows "Please load a 3D model first" and returns:
  no session start and no simulation start is called, and nothing but the error element
  (and the history) changes; in particular \<open>isARActive\<close> and the AR button stay as they
  were.
\<close>

theorem enterAR_without_model:
  "app_currentModel s = None \<Longrightarrow>
     new_calls s (enterAR env s) = [Call_enterAR, UI_showError ''Please load a 3D model first'']
     \<and> enterAR env s = s\<lparr>errorDiv_textContent := ''Please load a 3D model first'',
                       errorDiv_shown := True,
                       calls := calls s @ [Call_enterAR, UI_showError ''Please load a 3D model first'']\<rparr>
     \<and> isARActive (enterAR env s) = isARActive s
     \<and> arButton_disabled (enterAR env s) = arButton_disabled s
     \<and> arButton_textContent (enterAR env s) = arButton_textContent s
     \<and> arButton_title (enterAR env s) = arButton_title s"
  by (simp add: enterAR_def page_defs new_calls_def)

theorem enterAR_without_model_witness:
  "new_calls run_checked (enterAR env_ok run_checked)
     = [Call_enterAR, UI_showError ''Please load a 3D model first'']"
  using enterAR_without_model [OF run_checked_fields(1), of env_ok] by (rule conjunct1)

text \<open>
  C9. A load that fails, because validation throws or because reading or parsing fails,
  leaves the controller's and the viewer's current model, the scene's children and the
  object store as they were. Unless the parser threw inside the reader's handler, the
  error is shown and the loading notice is hidden.
\<close>

theorem loadModel_failure_atomic:
  assumes "(\<exists>e. validateFile f = Inl e) \<or> \<not> parsed_ok po"
  shows "app_currentModel (loadModel f po s) = app_currentModel s
     \<and> mv_currentModel (loadModel f po s) = mv_currentModel s
     \<and> scene (loadModel f po s) = scene s
     \<and> heap (loadModel f po s) = heap s
     \<and> next_oid (loadModel f po s) = next_oid s
     \<and> placedModel (loadModel f po s) = placedModel s
     \<and> ((\<forall>e. po \<noteq> ParserThrew e)
          \<longrightarrow> errorDiv_shown (loadModel f po s) \<and> \<not> loadingDiv_shown (loadModel f po s))"
proof (cases "validateFile f")
  case (Inl e)
  then show ?thesis by (simp add: loadModel_def loadModel_catch_def page_defs)
next
  case (Inr ok)
  with assms have np: "\<not> parsed_ok po" by auto
  show ?thesis
  proof (cases po)
    case ReadFailed
    then show ?thesis
      by (simp add: loadModel_def Inr loader_defs loadModel_catch_def page_defs Let_def)
  next
    case (ParseFailed e)
    then show ?thesis
      by (simp add: loadModel_def Inr loader_defs loadModel_catch_def page_defs Let_def)
  next
    case (ParserThrew e)
    then show ?thesis
      by (simp add: loadModel_def Inr loader_defs loadModel_catch_def page_defs Let_def)
  next
    case (Parsed a b c)
    with np show ?thesis by (simp add: parsed_ok_def)
  qed
qed

theorem loadModel_failure_atomic_witness:
  "scene (loadModel \<lparr>file_name = ''broken.glb'', file_size = 9\<rparr>
            (ParseFailed (Error (Some ''bad magic''))) run_loaded) = scene run_loaded
   \<and> errorDiv_shown (loadModel \<lparr>file_name = ''broken.glb'', file_size = 9\<rparr>
            (ParseFailed (Error (Some ''bad magic''))) run_loaded)
   \<and> scene (loadModel \<lparr>file_name = ''broken.glb'', file_size = 9\<rparr>
            (ParserThrew (Error (Some ''bad magic''))) run_loaded) = scene run_loaded
   \<and> scene (loadModel \<lparr>file_name = ''notes.txt'', file_size = 9\<rparr>
            (Parsed (0, 0, 0) (1, 1, 1) []) run_loaded) = scene run_loaded"
proof -
  have h1: "(\<exists>e. validateFile \<lparr>file_name = ''broken.glb'', file_size = 9\<rparr> = Inl e)
            \<or> \<not> parsed_ok (ParseFailed (Error (Some ''bad magic'')))"
    by (simp add: parsed_ok_def)
  have h2: "(\<exists>e. validateFile \<lparr>file_name = ''notes.txt'', file_size = 9\<rparr> = Inl e)
            \<or> \<not> parsed_ok (Parsed (0, 0, 0) (1, 1, 1) [])"
    by (simp add: validateFile_def supportedExtensions_def string_eval Let_def)
  have h3: "(\<exists>e. validateFile \<lparr>file_name = ''broken.glb'', file_size = 9\<rparr> = Inl e)
            \<or> \<not> parsed_ok (ParserThrew (Error (Some ''bad magic'')))"
    by (simp add: parsed_ok_def)
  have d: "\<forall>e. ParseFailed (Error (Some ''bad magic'')) \<noteq> ParserThrew e" by simp
  show ?thesis
    using loadModel_failure_atomic [OF h1, of run_loaded]
          loadModel_failure_atomic [OF h2, of run_loaded]
          loadModel_failure_atomic [OF h3, of run_loaded] d
    by blast
qed

lemma exitAR_calls:
  "new_calls s (exitAR s) =
     Call_exitAR # (if hasWebXR s \<and> xrSession s \<noteq> None then [XR_sessionEnd] else [])"
  by (cases "app_currentModel s"; cases "xrSession s")
     (simp_all add: exitAR_def endARSession_def hideError_def update_object_def emit_def
        new_calls_def Let_def)

lemma exitAR_inactive: "\<not> isARActive (exitAR s)"
  by (simp add: exitAR_def Let_def)

text \<open>
  One step of the AR button's listener. While \<open>isARActive\<close> is true, a click runs \<open>exitAR\<close>,
  which ends the session the AR helper refers to, and never \<open>enterAR\<close>: no session start,
  no simulation start and no session request is made, and \<open>isARActive\<close> is false
  afterwards. The same holds for a press of the button, which reaches the listener only
  when the button is enabled.
\<close>

lemma click_while_active_exits:
  assumes "isARActive s"
  shows "new_calls s (arButton_onClick env s) =
           Call_exitAR # (if hasWebXR s \<and> xrSession s \<noteq> None then [XR_sessionEnd] else [])
     \<and> arButton_onClick env s = exitAR s
     \<and> Call_enterAR \<notin> set (new_calls s (arButton_onClick env s))
     \<and> Call_startARSession \<notin> set (new_calls s (arButton_onClick env s))
     \<and> Call_startARSimulation \<notin> set (new_calls s (arButton_onClick env s))
     \<and> \<not> list_ex is_session_request (new_calls s (arButton_onClick env s))
     \<and> \<not> isARActive (arButton_onClick env s)
     \<and> Call_enterAR \<notin> set (new_calls s (press_arButton env s))
     \<and> \<not> list_ex is_session_request (new_calls s (press_arButton env s))"
proof -
  have a: "arButton_onClick env s = exitAR s"
    using assms by (simp add: arButton_onClick_def)
  have b: "press_arButton env s = (if arButton_disabled s then s else exitAR s)"
    by (simp add: press_arButton_def a)
  have c: "new_calls s s = []" by (simp add: new_calls_def)
  show ?thesis
    by (simp add: a b c exitAR_calls exitAR_inactive)
qed

lemma click_while_active_exits_at_run_session:
  "new_calls run_session (arButton_onClick env_ok run_session) = [Call_exitAR, XR_sessionEnd]"
proof -
  have "new_calls run_session (arButton_onClick env_ok run_session) =
          Call_exitAR # (if hasWebXR run_session \<and> xrSession run_session \<noteq> None
                         then [XR_sessionEnd] else [])"
    using click_while_active_exits [OF run_session_fields(1), of env_ok] by (rule conjunct1)
  then show ?thesis by (simp add: run_session_fields)
qed

lemma onXRFrame_calls:
  "new_calls s (snd (onXRFrame frame s)) =
     (if xrHitTestSource s = None then [] else [XR_getHitTestResults])"
proof (cases "xrHitTestSource s")
  case None
  then show ?thesis by (simp add: onXRFrame_def new_calls_def)
next
  case (Some src)
  have p: "\<And>pose t. calls (snd (placeModel pose t)) = calls t"
    by (simp add: placeModel_def new_object_def scene_remove_def scene_add_def update_object_def
          Let_def split: option.splits)
  show ?thesis
    using Some
    by (simp add: onXRFrame_def new_calls_def emit_def update_object_def p Let_def
          split: list.splits option.splits sum.splits)
qed

text \<open>
  C8. The calls of a session start are always an initial part of the fixed order: request
  an \<open>immersive-ar\<close> session with \<open>hit-test\<close> required, request the \<open>local-floor\<close>
  reference space, request the \<open>viewer\<close> reference space, request the hit-test source. A
  step is requested only when every step before it has succeeded, the hit-test source is
  stored only when all of them have, and a frame reads the hit-test results, once, only
  when a hit-test source is stored.
\<close>

theorem session_setup_in_order:
  "prefix (new_calls s (snd (startARSession env s))) session_setup_order
   \<and> (fst (startARSession env s) = Inr True
        \<longrightarrow> new_calls s (snd (startARSession env s)) = session_setup_order)
   \<and> (XR_requestReferenceSpace ''local-floor'' \<in> set (new_calls s (snd (startARSession env s)))
        \<longrightarrow> \<not> isl (requestSession_result env))
   \<and> (XR_requestReferenceSpace ''viewer'' \<in> set (new_calls s (snd (startARSession env s)))
        \<longrightarrow> \<not> isl (requestSession_result env) \<and> \<not> isl (localFloor_result env))
   \<and> (XR_requestHitTestSource \<in> set (new_calls s (snd (startARSession env s)))
        \<longrightarrow> \<not> isl (requestSession_result env) \<and> \<not> isl (localFloor_result env)
            \<and> \<not> isl (viewerSpace_result env))
   \<and> (xrHitTestSource s = None \<and> xrHitTestSource (snd (startARSession env s)) \<noteq> None
        \<longrightarrow> new_calls s (snd (startARSession env s)) = session_setup_order
            \<and> \<not> isl (hitTestSource_result env))
   \<and> new_calls s (snd (onXRFrame frame s)) =
        (if xrHitTestSource s = None then [] else [XR_getHitTestResults])"
proof -
  have src: "xrHitTestSource s = None \<and> xrHitTestSource (snd (startARSession env s)) \<noteq> None
        \<longrightarrow> fst (startARSession env s) = Inr True"
    by (auto simp: startARSession_source)
  show ?thesis
    using src
    by (auto simp: startARSession_calls startARSession_result onXRFrame_calls
          session_setup_order_def prefix_def)
qed

theorem session_setup_in_order_witness:
  "new_calls run_loaded (snd (startARSession xr_ok run_loaded)) = session_setup_order
   \<and> new_calls run_loaded (snd (onXRFrame tap_frame run_loaded)) = []
   \<and> new_calls run_session (snd (onXRFrame tap_frame run_session)) = [XR_getHitTestResults]"
proof -
  have ok: "fst (startARSession xr_ok run_loaded) = Inr True"
    by (simp add: startARSession_result run_loaded_fields xr_ok_def)
  show ?thesis
    using session_setup_in_order [of run_loaded xr_ok tap_frame]
          session_setup_in_order [of run_session xr_ok tap_frame] ok
    by (simp add: run_loaded_fields run_session_fields)
qed

section \<open>Entering AR and reporting errors\<close>

lemmas start_defs = startARSession_def setupXRSession_def setupARLighting_def setupHitTest_def
        createReticle_def new_object_def scene_add_def emit_def Let_def

lemma startARSession_calls_append:
  "calls (snd (startARSession env s)) = calls s @
     (if \<not> isARSupported s then take 1 session_setup_order
      else if isl (requestSession_result env) then take 2 session_setup_order
      else if isl (localFloor_result env) then take 3 session_setup_order
      else if isl (viewerSpace_result env) then take 4 session_setup_order
      else session_setup_order)"
  by (cases "requestSession_result env"; cases "localFloor_result env";
      cases "viewerSpace_result env"; cases "hitTestSource_result env")
     (simp_all add: start_defs session_setup_order_def)

lemma startARSession_fst_cong:
  "isARSupported s = isARSupported s' \<Longrightarrow> fst (startARSession env s) = fst (startARSession env s')"
  by (cases "requestSession_result env"; cases "localFloor_result env";
      cases "viewerSpace_result env"; cases "hitTestSource_result env")
     (simp_all add: start_defs)

lemma startARSession_isARActive [simp]:
  "isARActive (snd (startARSession env s)) = isARActive s"
  by (cases "requestSession_result env"; cases "localFloor_result env";
      cases "viewerSpace_result env"; cases "hitTestSource_result env")
     (simp_all add: start_defs)


lemma ModelLoader_fst_cong:
  "fst (ModelLoader_loadModel f po s) = Rejected e \<Longrightarrow>
     fst (ModelLoader_loadModel f po s') = Rejected e"
  by (cases po) (auto simp: loader_defs emit_def Let_def split: if_splits)

lemma ModelLoader_calls:
  "calls (snd (ModelLoader_loadModel f po s)) =
     calls s @ (if endsWith (toLowerCase (file_name f)) ''.glb'' \<or> endsWith (toLowerCase (file_name f)) ''.gltf''
                then [Call_loadGLTF f]
                else if endsWith (toLowerCase (file_name f)) ''.stl'' then [Call_loadSTL f] else [])"
  by (cases po) (simp_all add: loader_defs emit_def Let_def)

lemmas sim_defs = enterAR_def startARSimulation_def setupCameraBackground_def
  startBasicARSimulation_def enableDeviceOrientation_def place_on_surface_def update_object_def
  showLoading_def hideLoading_def showError_def emit_def new_calls_def Let_def

lemma enterAR_simulation_calls:
  assumes "\<not> hasWebXR s" "app_currentModel s \<noteq> None"
  shows "new_calls s (enterAR env s) =
     [Call_enterAR, Call_startARSimulation, Media_getUserMedia] @
     (case camera_result env of
        Inl e \<Rightarrow>
          [UI_showError (phone @ '' Camera access denied. Using basic AR simulation without camera.''),
           Call_startBasicARSimulation,
           UI_showError (phone @ '' Basic AR Simulation: Move your device to view the model from different angles.'')]
      | Inr stream \<Rightarrow>
          [UI_showError (phone @ '' iOS AR Simulation: Camera active! Move your device to view the model. The model appears on a virtual surface.'')])"
    and "isARActive (enterAR env s)"
  using assms
  by (cases "camera_result env"; cases "orientation env"; cases "app_currentModel s";
      simp add: sim_defs)+

lemma enterAR_xr_calls:
  assumes "hasWebXR s" "app_currentModel s \<noteq> None"
  shows "new_calls s (enterAR env s) =
     Call_enterAR #
     (if \<not> isARSupported s then take 1 session_setup_order
      else if isl (requestSession_result (xr env)) then take 2 session_setup_order
      else if isl (localFloor_result (xr env)) then take 3 session_setup_order
      else if isl (viewerSpace_result (xr env)) then take 4 session_setup_order
      else session_setup_order)
     @ (case fst (startARSession (xr env) s) of
          Inl e \<Rightarrow> [UI_showError (''AR failed: '' @ message_text e)]
        | Inr ok \<Rightarrow> [])"
    and "isl (fst (startARSession (xr env) s)) \<Longrightarrow> isARActive (enterAR env s) = isARActive s"
proof -
  define s1 where "s1 = showLoading ''Starting AR session...'' (emit Call_enterAR s)"
  obtain r s2 where st: "startARSession (xr env) s1 = (r, s2)"
    by (cases "startARSession (xr env) s1")
  have sup: "isARSupported s1 = isARSupported s"
    by (simp add: s1_def showLoading_def emit_def)
  have r: "r = fst (startARSession (xr env) s)"
    using startARSession_fst_cong[OF sup, of "xr env"] st by simp
  have c: "calls s2 = calls s1 @
     (if \<not> isARSupported s then take 1 session_setup_order
      else if isl (requestSession_result (xr env)) then take 2 session_setup_order
      else if isl (localFloor_result (xr env)) then take 3 session_setup_order
      else if isl (viewerSpace_result (xr env)) then take 4 session_setup_order
      else session_setup_order)"
    using startARSession_calls_append[of "xr env" s1] st sup by simp
  have c1: "calls s1 = calls s @ [Call_enterAR]"
    by (simp add: s1_def showLoading_def emit_def)
  have a: "isARActive s2 = isARActive s"
    using startARSession_isARActive[of "xr env" s1] unfolding st
    by (simp add: s1_def showLoading_def emit_def)
  have e: "enterAR env s =
     (case r of
        Inl e \<Rightarrow> hideLoading (showError (''AR failed: '' @ message_text e) s2)
      | Inr ok \<Rightarrow> hideLoading (s2\<lparr>isARActive := True, arButton_textContent := ''Exit AR'',
                                   body_arMode := True, animationLoop := True\<rparr>))"
  proof -
    have h: "hasWebXR s1" "app_currentModel (emit Call_enterAR s) \<noteq> None"
      using assms by (simp_all add: s1_def showLoading_def emit_def)
    show ?thesis
      unfolding enterAR_def Let_def s1_def[symmetric] by (simp add: st h)
  qed
  show "new_calls s (enterAR env s) =
     Call_enterAR #
     (if \<not> isARSupported s then take 1 session_setup_order
      else if isl (requestSession_result (xr env)) then take 2 session_setup_order
      else if isl (localFloor_result (xr env)) then take 3 session_setup_order
      else if isl (viewerSpace_result (xr env)) then take 4 session_setup_order
      else session_setup_order)
     @ (case fst (startARSession (xr env) s) of
          Inl e \<Rightarrow> [UI_showError (''AR failed: '' @ message_text e)]
        | Inr ok \<Rightarrow> [])"
    unfolding e r[symmetric]
    by (cases r) (simp_all add: new_calls_def c c1 hideLoading_def showError_def emit_def)
  show "isl (fst (startARSession (xr env) s)) \<Longrightarrow> isARActive (enterAR env s) = isARActive s"
    unfolding e r[symmetric]
    by (cases r) (simp_all add: a hideLoading_def showError_def emit_def)
qed

lemma desktop_loaded_fields:
  "\<not> hasWebXR desktop_loaded" "app_currentModel desktop_loaded \<noteq> None"
  "arButton_disabled desktop_loaded" "\<not> isIOS desktop_loaded" "\<not> isARActive desktop_loaded"
  "arButton_textContent desktop_loaded = ''AR Not Supported''"
  by (simp_all add: desktop_loaded_def no_xr_def op_defs)

lemma iphone_loaded_fields:
  "\<not> hasWebXR iphone_loaded" "app_currentModel iphone_loaded \<noteq> None"
  "\<not> arButton_disabled iphone_loaded" "isIOS iphone_loaded" "\<not> isARActive iphone_loaded"
  "arButton_textContent iphone_loaded = ''AR Simulation''"
  by (simp_all add: iphone_loaded_def no_xr_def op_defs)

lemma validateFile_ok_ext:
  "validateFile f = Inr ok \<Longrightarrow>
     endsWith (toLowerCase (file_name f)) ''.glb'' \<or> endsWith (toLowerCase (file_name f)) ''.gltf''
     \<or> endsWith (toLowerCase (file_name f)) ''.stl''"
  by (simp add: validateFile_def supportedExtensions_def Let_def split: if_splits)


lemma ModelLoader_parsed:
  assumes "validateFile f = Inr ok"
  shows "ModelLoader_loadModel f (Parsed pos sc an) s =
     (let gl = (endsWith (toLowerCase (file_name f)) ''.glb'' \<or> endsWith (toLowerCase (file_name f)) ''.gltf'')
      in (Resolved \<lparr>model = next_oid s, animations = (if gl then an else []),
                mtype = (if gl then GLTF else STL)\<rparr>,
          s\<lparr>heap := (heap s)(next_oid s := \<lparr>kind = ModelObject, position = pos, scale = sc,
                                    visible = True, intensity = 0\<rparr>),
            next_oid := Suc (next_oid s),
            calls := calls s @ [if gl then Call_loadGLTF f else Call_loadSTL f]\<rparr>))"
  using validateFile_ok_ext[OF assms]
  by (auto simp: loader_defs emit_def Let_def)

lemma loadModel_success:
  assumes "validateFile f = Inr ok" "po = Parsed pos sc an"
  shows "scene (loadModel f po s) =
           remove1 (next_oid s) (case mv_currentModel s of None \<Rightarrow> scene s
                                  | Some m \<Rightarrow> remove1 m (scene s)) @ [next_oid s]"
    and "mv_currentModel (loadModel f po s) = Some (next_oid s)"
    and "map_option model (app_currentModel (loadModel f po s)) = Some (next_oid s)"
    and "next_oid (loadModel f po s) = Suc (next_oid s)"
    and "heap (loadModel f po s) =
           (heap s)(next_oid s := \<lparr>kind = ModelObject, position = pos, scale = sc,
                                    visible = True, intensity = 0\<rparr>)"
    and "placedModel (loadModel f po s) = placedModel s"
    and "reticle (loadModel f po s) = reticle s"
    and "arButton_disabled (loadModel f po s) =
           (if hasWebXR s \<or> isIOS s then False else arButton_disabled s)"
    and "arButton_textContent (loadModel f po s) =
           (if hasWebXR s then ''Enter AR Mode'' else if isIOS s then ''AR Simulation''
            else arButton_textContent s)"
  by (cases "mv_currentModel s";
      simp add: loadModel_def assms ModelLoader_parsed[OF assms(1)] clearCurrentModel_def
        scene_add_def scene_remove_def page_defs Let_def)+

lemma press_enabled_idle:
  "\<not> arButton_disabled s \<Longrightarrow> \<not> isARActive s \<Longrightarrow> press_arButton env s = enterAR env s"
  by (simp add: press_arButton_def arButton_onClick_def)

text \<open>
  Against C5 as stated: on a desktop browser without WebXR, with a model loaded, the AR
  button is disabled and labelled "AR Not Supported"; pressing it starts nothing.
\<close>

theorem no_fallback_on_desktop:
  "\<not> hasWebXR desktop_loaded \<and> app_currentModel desktop_loaded \<noteq> None
   \<and> arButton_disabled desktop_loaded
   \<and> arButton_textContent desktop_loaded = ''AR Not Supported''
   \<and> press_arButton env_ok desktop_loaded = desktop_loaded
   \<and> Call_startARSimulation \<notin> set (new_calls desktop_loaded (press_arButton env_ok desktop_loaded))"
  by (simp add: desktop_loaded_fields press_arButton_def new_calls_def)

text \<open>
  C5, amended. The fallback simulation is offered on iOS devices only. Whenever the button
  is enabled, AR is not active, a model is loaded and \<open>hasWebXR\<close> is false, a press starts
  the AR simulation and no WebXR session. On iOS without WebXR a successful load enables
  the button as "AR Simulation". On other devices without WebXR the support check disables
  the button and no load enables it.
\<close>

theorem fallback_simulation_when_offered:
  "(\<not> hasWebXR s \<and> \<not> isARActive s \<and> app_currentModel s \<noteq> None \<and> \<not> arButton_disabled s
      \<longrightarrow> Call_startARSimulation \<in> set (new_calls s (press_arButton env s))
          \<and> Call_startARSession \<notin> set (new_calls s (press_arButton env s))
          \<and> \<not> list_ex is_session_request (new_calls s (press_arButton env s))
          \<and> isARActive (press_arButton env s))
   \<and> (\<not> hasWebXR s \<and> isIOS s \<and> validateFile f = Inr True \<and> parsed_ok po
      \<longrightarrow> \<not> arButton_disabled (loadModel f po s)
          \<and> arButton_textContent (loadModel f po s) = ''AR Simulation''
          \<and> app_currentModel (loadModel f po s) \<noteq> None)
   \<and> (\<not> hasWebXR s \<and> \<not> isIOS s
      \<longrightarrow> arButton_disabled (loadModel f po s) = arButton_disabled s)
   \<and> (\<not> ar support \<and> \<not> isIOS s
      \<longrightarrow> arButton_disabled (checkWebXRSupport userAgent (Inr support) s)
          \<and> \<not> hasWebXR (checkWebXRSupport userAgent (Inr support) s))"
proof (intro conjI impI)
  assume a: "\<not> hasWebXR s \<and> \<not> isARActive s \<and> app_currentModel s \<noteq> None \<and> \<not> arButton_disabled s"
  then have p: "press_arButton env s = enterAR env s"
    by (simp add: press_enabled_idle)
  from a have c: "new_calls s (enterAR env s) =
     [Call_enterAR, Call_startARSimulation, Media_getUserMedia] @
     (case camera_result env of
        Inl e \<Rightarrow>
          [UI_showError (phone @ '' Camera access denied. Using basic AR simulation without camera.''),
           Call_startBasicARSimulation,
           UI_showError (phone @ '' Basic AR Simulation: Move your device to view the model from different angles.'')]
      | Inr stream \<Rightarrow>
          [UI_showError (phone @ '' iOS AR Simulation: Camera active! Move your device to view the model. The model appears on a virtual surface.'')])"
    by (simp add: enterAR_simulation_calls(1))
  show "Call_startARSimulation \<in> set (new_calls s (press_arButton env s))"
    unfolding p c by simp
  show "Call_startARSession \<notin> set (new_calls s (press_arButton env s))"
    unfolding p c by (cases "camera_result env") simp_all
  show "\<not> list_ex is_session_request (new_calls s (press_arButton env s))"
    unfolding p c by (cases "camera_result env") simp_all
  show "isARActive (press_arButton env s)"
    unfolding p using a by (simp add: enterAR_simulation_calls(2))
next
  assume a: "\<not> hasWebXR s \<and> isIOS s \<and> validateFile f = Inr True \<and> parsed_ok po"
  then obtain pos sc an where po: "po = Parsed pos sc an"
    by (cases po) (simp_all add: parsed_ok_def)
  from a have v: "validateFile f = Inr True" by simp
  show "\<not> arButton_disabled (loadModel f po s)"
    using a by (simp add: loadModel_success(8)[OF v po])
  show "arButton_textContent (loadModel f po s) = ''AR Simulation''"
    using a by (simp add: loadModel_success(9)[OF v po])
  show "app_currentModel (loadModel f po s) \<noteq> None"
    using loadModel_success(3)[OF v po, of s] by auto
next
  assume a: "\<not> hasWebXR s \<and> \<not> isIOS s"
  show "arButton_disabled (loadModel f po s) = arButton_disabled s"
  proof (cases "(\<exists>e. validateFile f = Inl e) \<or> \<not> parsed_ok po")
    case True
    then show ?thesis
      by (cases "validateFile f"; cases po)
         (simp_all add: loadModel_def loader_defs loadModel_catch_def page_defs Let_def parsed_ok_def)
  next
    case False
    then obtain ok pos sc an where v: "validateFile f = Inr ok" and po: "po = Parsed pos sc an"
      by (cases "validateFile f"; cases po) (simp_all add: parsed_ok_def)
    show ?thesis using a by (simp add: loadModel_success(8)[OF v po])
  qed
next
  assume a: "\<not> ar support \<and> \<not> isIOS s"
  then show "arButton_disabled (checkWebXRSupport userAgent (Inr support) s)"
    by (simp add: checkWebXRSupport_def showError_def emit_def Let_def)
  from a show "\<not> hasWebXR (checkWebXRSupport userAgent (Inr support) s)"
    by (simp add: checkWebXRSupport_def showError_def emit_def Let_def)
qed

theorem fallback_simulation_when_offered_witness:
  "Call_startARSimulation \<in> set (new_calls iphone_loaded (press_arButton env_ok iphone_loaded))
   \<and> isARActive (press_arButton env_ok iphone_loaded)
   \<and> \<not> arButton_disabled (loadModel chair (Parsed (0, 0, 0) (1, 1, 1) []) iphone_loaded)
   \<and> arButton_disabled (loadModel chair (Parsed (0, 0, 0) (1, 1, 1) []) desktop_loaded)
   \<and> arButton_disabled (checkWebXRSupport ''Firefox'' (Inr no_xr) desktop_loaded)"
proof -
  have i: "\<not> isIOS iphone_loaded \<longrightarrow> False" "\<not> ar no_xr"
          "parsed_ok (Parsed (0, 0, 0) (1, 1, 1) [])"
    by (simp_all add: iphone_loaded_fields no_xr_def parsed_ok_def)
  show ?thesis
    using fallback_simulation_when_offered
            [of iphone_loaded env_ok chair "Parsed (0, 0, 0) (1, 1, 1) []" no_xr "''Firefox''"]
          fallback_simulation_when_offered
            [of desktop_loaded env_ok chair "Parsed (0, 0, 0) (1, 1, 1) []" no_xr "''Firefox''"]
          i
    by (simp add: iphone_loaded_fields desktop_loaded_fields)
qed

lemma loadModel_failure_calls:
  assumes v: "validateFile f = Inr ok" and l: "fst (ModelLoader_loadModel f po s) = Rejected e"
  shows "new_calls s (loadModel f po s) =
           (if endsWith (toLowerCase (file_name f)) ''.glb'' \<or> endsWith (toLowerCase (file_name f)) ''.gltf''
            then [Call_loadGLTF f] else [Call_loadSTL f])
           @ [UI_showError (''Failed to load model: '' @ message_text e)]"
proof -
  define s1 where "s1 = hideError (showLoading ''Loading model...'' s)"
  obtain r s2 where st: "ModelLoader_loadModel f po s1 = (r, s2)"
    by (cases "ModelLoader_loadModel f po s1")
  have "fst (ModelLoader_loadModel f po s1) = Rejected e"
    using l by (rule ModelLoader_fst_cong)
  then have r: "r = Rejected e" using st by simp
  have c: "calls s2 = calls s1 @
             (if endsWith (toLowerCase (file_name f)) ''.glb'' \<or> endsWith (toLowerCase (file_name f)) ''.gltf''
              then [Call_loadGLTF f]
              else if endsWith (toLowerCase (file_name f)) ''.stl'' then [Call_loadSTL f] else [])"
    using ModelLoader_calls[of f po s1] unfolding st by simp
  have c1: "calls s1 = calls s" by (simp add: s1_def page_defs)
  have e: "loadModel f po s = loadModel_catch e s2"
    unfolding loadModel_def Let_def s1_def[symmetric] by (simp add: v st r)
  show ?thesis
    unfolding e using validateFile_ok_ext[OF v]
    by (auto simp: new_calls_def c c1 loadModel_catch_def page_defs)
qed

text \<open>
  Against C7 as stated: on an iPhone without WebXR, with a model loaded, the camera request
  is refused with the message "Permission denied". Two messages are handed to \<open>showError\<close>,
  both fixed texts; neither contains the error's message.
\<close>

theorem camera_denial_message_not_shown:
  "shown_messages (new_calls iphone_loaded (press_arButton env_camera_denied iphone_loaded)) =
     [phone @ '' Camera access denied. Using basic AR simulation without camera.'',
      phone @ '' Basic AR Simulation: Move your device to view the model from different angles.'']
   \<and> \<not> mentions ''Permission denied''
         (shown_messages (new_calls iphone_loaded (press_arButton env_camera_denied iphone_loaded)))"
proof -
  have p: "press_arButton env_camera_denied iphone_loaded = enterAR env_camera_denied iphone_loaded"
    by (simp add: press_enabled_idle iphone_loaded_fields)
  have c: "shown_messages (new_calls iphone_loaded (press_arButton env_camera_denied iphone_loaded)) =
     [phone @ '' Camera access denied. Using basic AR simulation without camera.'',
      phone @ '' Basic AR Simulation: Move your device to view the model from different angles.'']"
    unfolding p
    by (simp add: enterAR_simulation_calls(1) iphone_loaded_fields env_camera_denied_def)
  show ?thesis
    unfolding c by (simp add: mentions_def phone_def)
qed


lemma shown_messages_append [simp]:
  "shown_messages (xs @ ys) = shown_messages xs @ shown_messages ys"
  by (induction xs rule: shown_messages.induct) simp_all

text \<open>
  C7, amended. An unsupported format, an oversized file, a parse failure that the loader
  reports by rejecting its promise, and a rejected AR session are caught by \<open>loadModel\<close>
  and \<open>enterAR\<close>, which hand \<open>showError\<close> one message that ends with the error's message,
  call the parser at most once and request at most one session. A refused camera is caught
  inside \<open>startARSimulation\<close>, which \<open>enterAR\<close> does not await: it hands \<open>showError\<close> a
  fixed text, requests the camera once and goes on to the basic simulation.
\<close>

theorem errors_shown_without_retry:
  "(validateFile f = Inl e
      \<longrightarrow> new_calls s (loadModel f po s) = [UI_showError (''Failed to load model: '' @ message_text e)])
   \<and> (validateFile f = Inr True \<and> fst (ModelLoader_loadModel f po s) = Rejected e
      \<longrightarrow> shown_messages (new_calls s (loadModel f po s)) = [''Failed to load model: '' @ message_text e]
          \<and> length (filter is_parser_call (new_calls s (loadModel f po s))) = 1)
   \<and> (hasWebXR s \<and> app_currentModel s \<noteq> None \<and> fst (startARSession (xr env) s) = Inl e
      \<longrightarrow> shown_messages (new_calls s (enterAR env s)) = [''AR failed: '' @ message_text e]
          \<and> length (filter is_session_request (new_calls s (enterAR env s))) \<le> 1
          \<and> isARActive (enterAR env s) = isARActive s)
   \<and> (\<not> hasWebXR s \<and> app_currentModel s \<noteq> None \<and> camera_result env = Inl e
      \<longrightarrow> shown_messages (new_calls s (enterAR env s)) =
            [phone @ '' Camera access denied. Using basic AR simulation without camera.'',
             phone @ '' Basic AR Simulation: Move your device to view the model from different angles.'']
          \<and> length (filter (\<lambda>c. c = Media_getUserMedia) (new_calls s (enterAR env s))) = 1
          \<and> Call_startBasicARSimulation \<in> set (new_calls s (enterAR env s))
          \<and> isARActive (enterAR env s))"
proof (intro conjI impI)
  assume "validateFile f = Inl e"
  then show "new_calls s (loadModel f po s) = [UI_showError (''Failed to load model: '' @ message_text e)]"
    by (simp add: loadModel_def loadModel_catch_def page_defs new_calls_def)
next
  assume a: "validateFile f = Inr True \<and> fst (ModelLoader_loadModel f po s) = Rejected e"
  note c = loadModel_failure_calls[of f True po s e]
  show "shown_messages (new_calls s (loadModel f po s)) = [''Failed to load model: '' @ message_text e]"
    using a by (simp add: c)
  show "length (filter is_parser_call (new_calls s (loadModel f po s))) = 1"
    using a by (simp add: c)
next
  assume a: "hasWebXR s \<and> app_currentModel s \<noteq> None \<and> fst (startARSession (xr env) s) = Inl e"
  note c = enterAR_xr_calls(1)[of s env]
  show "shown_messages (new_calls s (enterAR env s)) = [''AR failed: '' @ message_text e]"
    using a by (simp add: c session_setup_order_def)
  show "length (filter is_session_request (new_calls s (enterAR env s))) \<le> 1"
    using a by (simp add: c session_setup_order_def)
  show "isARActive (enterAR env s) = isARActive s"
    using a by (simp add: enterAR_xr_calls(2))
next
  assume a: "\<not> hasWebXR s \<and> app_currentModel s \<noteq> None \<and> camera_result env = Inl e"
  note c = enterAR_simulation_calls(1)[of s env]
  show "shown_messages (new_calls s (enterAR env s)) =
            [phone @ '' Camera access denied. Using basic AR simulation without camera.'',
             phone @ '' Basic AR Simulation: Move your device to view the model from different angles.'']"
    using a by (simp add: c)
  show "length (filter (\<lambda>c. c = Media_getUserMedia) (new_calls s (enterAR env s))) = 1"
    using a by (simp add: c)
  show "Call_startBasicARSimulation \<in> set (new_calls s (enterAR env s))"
    using a by (simp add: c)
  show "isARActive (enterAR env s)"
    using a by (simp add: enterAR_simulation_calls(2))
qed


lemma failing_inputs:
  "validateFile notes_txt = Inl (Error (Some ''Unsupported file format. Supported formats: .glb, .gltf, .stl''))"
  "validateFile broken = Inr True"
  "fst (ModelLoader_loadModel broken (ParseFailed (Error (Some ''bad magic''))) s)
     = Rejected (Error (Some ''Failed to parse glTF file: bad magic''))"
  "fst (startARSession (xr env_session_rejected) run_loaded) = Inl (Error (Some ''Session refused''))"
  by (simp_all add: notes_txt_def broken_def validateFile_def supportedExtensions_def maxSize_def
        string_eval loader_defs emit_def Let_def env_session_rejected_def xr_ok_def
        startARSession_def run_loaded_fields)

theorem errors_shown_without_retry_witness:
  "new_calls run_loaded (loadModel notes_txt (Parsed (0, 0, 0) (1, 1, 1) []) run_loaded)
     = [UI_showError ''Failed to load model: Unsupported file format. Supported formats: .glb, .gltf, .stl'']
   \<and> shown_messages (new_calls run_loaded (loadModel broken (ParseFailed (Error (Some ''bad magic''))) run_loaded))
     = [''Failed to load model: Failed to parse glTF file: bad magic'']
   \<and> shown_messages (new_calls run_loaded (enterAR env_session_rejected run_loaded))
     = [''AR failed: Session refused'']
   \<and> Call_startBasicARSimulation \<in> set (new_calls iphone_loaded (enterAR env_camera_denied iphone_loaded))"
proof -
  have cam: "camera_result env_camera_denied = Inl (Error (Some ''Permission denied''))"
    by (simp add: env_camera_denied_def)
  show ?thesis
    using errors_shown_without_retry
            [of notes_txt "Error (Some ''Unsupported file format. Supported formats: .glb, .gltf, .stl'')"
                run_loaded "Parsed (0, 0, 0) (1, 1, 1) []" env_ok]
          errors_shown_without_retry
            [of broken "Error (Some ''Failed to parse glTF file: bad magic'')"
                run_loaded "ParseFailed (Error (Some ''bad magic''))" env_ok]
          errors_shown_without_retry
            [of broken "Error (Some ''Session refused'')"
                run_loaded "ParseFailed (Error (Some ''bad magic''))" env_session_rejected]
          errors_shown_without_retry
            [of broken "Error (Some ''Permission denied'')"
                iphone_loaded "ParseFailed (Error (Some ''bad magic''))" env_camera_denied]
    by (simp add: failing_inputs cam run_loaded_fields iphone_loaded_fields)
qed

section \<open>What every run keeps\<close>

lemma scene_invI:
  assumes "distinct (scene s)"
    and "\<And>i. i \<in> set (scene s) \<Longrightarrow> i < next_oid s"
    and "\<And>m. mv_currentModel s = Some m \<Longrightarrow>
            m < next_oid s \<and> m \<in> set (scene s) \<and> kind (heap s m) = ModelObject"
    and "placedModel s = None"
    and "\<And>r. reticle s = Some r \<Longrightarrow> r < next_oid s \<and> kind (heap s r) = ReticleMesh"
    and "\<And>i. i \<in> set (scene s) \<Longrightarrow> kind (heap s i) = ModelObject \<Longrightarrow>
            mv_currentModel s = Some i"
    and "map_option model (app_currentModel s) = mv_currentModel s"
  shows "scene_inv s"
  unfolding scene_inv_def using assms by blast

lemma scene_invD:
  assumes "scene_inv s"
  shows "distinct (scene s)"
    and "i \<in> set (scene s) \<Longrightarrow> i < next_oid s"
    and "mv_currentModel s = Some m \<Longrightarrow>
            m < next_oid s \<and> m \<in> set (scene s) \<and> kind (heap s m) = ModelObject"
    and "placedModel s = None"
    and "reticle s = Some r \<Longrightarrow> r < next_oid s \<and> kind (heap s r) = ReticleMesh"
    and "i \<in> set (scene s) \<Longrightarrow> kind (heap s i) = ModelObject \<Longrightarrow> mv_currentModel s = Some i"
    and "map_option model (app_currentModel s) = mv_currentModel s"
  using assms unfolding scene_inv_def by blast+

lemma fresh_not_in_scene: "scene_inv s \<Longrightarrow> next_oid s \<notin> set (scene s)"
  using scene_invD(2)[of s "next_oid s"] by auto

lemma scene_inv_cong:
  assumes "scene_inv s"
    and "scene s' = scene s" "next_oid s' = next_oid s"
    and "mv_currentModel s' = mv_currentModel s" "placedModel s' = placedModel s"
    and "reticle s' = reticle s" "\<And>i. kind (heap s' i) = kind (heap s i)"
    and "map_option model (app_currentModel s') = map_option model (app_currentModel s)"
  shows "scene_inv s'"
  using assms(1) unfolding scene_inv_def assms(2-) .

lemma scene_inv_new_reticle:
  assumes inv: "scene_inv s"
    and sc: "scene s' = remove1 (next_oid s) (scene s) @ [next_oid s]"
    and nx: "next_oid s' = Suc (next_oid s)"
    and rt: "reticle s' = Some (next_oid s)"
    and kd: "\<And>i. kind (heap s' i) = (if i = next_oid s then ReticleMesh else kind (heap s i))"
    and cur: "mv_currentModel s' = mv_currentModel s"
    and pl: "placedModel s' = placedModel s"
    and app: "map_option model (app_currentModel s') = map_option model (app_currentModel s)"
  shows "scene_inv s'"
proof (rule scene_invI)
  note D = scene_invD[OF inv]
  have fresh: "next_oid s \<notin> set (scene s)" using inv by (rule fresh_not_in_scene)
  then have sc': "scene s' = scene s @ [next_oid s]" by (simp add: sc remove1_idem)
  show "distinct (scene s')" using D(1) fresh by (simp add: sc')
  show "i < next_oid s'" if "i \<in> set (scene s')" for i
    using that D(2)[of i] by (auto simp: sc' nx)
  show "m < next_oid s' \<and> m \<in> set (scene s') \<and> kind (heap s' m) = ModelObject"
    if "mv_currentModel s' = Some m" for m
    using that D(3)[of m] by (auto simp: sc' nx cur kd)
  show "placedModel s' = None" using D(4) by (simp add: pl)
  show "r < next_oid s' \<and> kind (heap s' r) = ReticleMesh" if "reticle s' = Some r" for r
    using that by (auto simp: nx rt kd)
  show "mv_currentModel s' = Some i"
    if "i \<in> set (scene s')" "kind (heap s' i) = ModelObject" for i
    using that D(6)[of i] by (auto simp: sc' cur kd split: if_splits)
  show "map_option model (app_currentModel s') = mv_currentModel s'"
    using D(7) by (simp add: app cur)
qed

lemma scene_inv_new_model:
  assumes inv: "scene_inv s"
    and sc: "scene s' = remove1 (next_oid s)
                (case mv_currentModel s of None \<Rightarrow> scene s | Some m \<Rightarrow> remove1 m (scene s))
                @ [next_oid s]"
    and nx: "next_oid s' = Suc (next_oid s)"
    and cur: "mv_currentModel s' = Some (next_oid s)"
    and app: "map_option model (app_currentModel s') = Some (next_oid s)"
    and kd: "\<And>i. kind (heap s' i) = (if i = next_oid s then ModelObject else kind (heap s i))"
    and pl: "placedModel s' = placedModel s"
    and rt: "reticle s' = reticle s"
  shows "scene_inv s'"
proof (rule scene_invI)
  note D = scene_invD[OF inv]
  define old where "old = (case mv_currentModel s of None \<Rightarrow> scene s | Some m \<Rightarrow> remove1 m (scene s))"
  have old_set: "set old = set (scene s) - set_option (mv_currentModel s)"
    using D(1) by (cases "mv_currentModel s") (simp_all add: old_def)
  have old_d: "distinct old"
    using D(1) by (cases "mv_currentModel s") (simp_all add: old_def)
  have fresh: "next_oid s \<notin> set old" using D(2)[of "next_oid s"] old_set by auto
  have sc': "scene s' = old @ [next_oid s]"
    using fresh by (simp add: sc old_def[symmetric] remove1_idem)
  show "distinct (scene s')" using old_d fresh by (simp add: sc')
  show "i < next_oid s'" if "i \<in> set (scene s')" for i
    using that D(2)[of i] by (auto simp: sc' nx old_set)
  show "m < next_oid s' \<and> m \<in> set (scene s') \<and> kind (heap s' m) = ModelObject"
    if "mv_currentModel s' = Some m" for m
    using that by (auto simp: sc' nx cur kd)
  show "placedModel s' = None" using D(4) by (simp add: pl)
  show "r < next_oid s' \<and> kind (heap s' r) = ReticleMesh" if "reticle s' = Some r" for r
    using that D(5)[of r] by (auto simp: nx rt kd)
  show "mv_currentModel s' = Some i"
    if "i \<in> set (scene s')" "kind (heap s' i) = ModelObject" for i
    using that D(6)[of i] by (auto simp: sc' cur kd old_set split: if_splits)
  show "map_option model (app_currentModel s') = mv_currentModel s'"
    by (simp add: app cur)
qed

text \<open>An object that is created and put nowhere changes none of these facts.\<close>

lemma scene_inv_alloc:
  assumes inv: "scene_inv s"
    and sc: "scene s' = scene s"
    and nx: "next_oid s' = Suc (next_oid s)"
    and kd: "\<And>i. i \<noteq> next_oid s \<Longrightarrow> kind (heap s' i) = kind (heap s i)"
    and cur: "mv_currentModel s' = mv_currentModel s"
    and pl: "placedModel s' = placedModel s"
    and rt: "reticle s' = reticle s"
    and app: "map_option model (app_currentModel s') = map_option model (app_currentModel s)"
  shows "scene_inv s'"
proof (rule scene_invI)
  note D = scene_invD[OF inv]
  have fresh: "next_oid s \<notin> set (scene s)" using inv by (rule fresh_not_in_scene)
  show "distinct (scene s')" using D(1) by (simp add: sc)
  show "i < next_oid s'" if "i \<in> set (scene s')" for i
    using that D(2)[of i] by (auto simp: sc nx)
  show "m < next_oid s' \<and> m \<in> set (scene s') \<and> kind (heap s' m) = ModelObject"
    if "mv_currentModel s' = Some m" for m
  proof -
    from that have c: "mv_currentModel s = Some m" by (simp add: cur)
    have "m \<noteq> next_oid s" using D(3)[OF c] by auto
    then show ?thesis using D(3)[OF c] by (simp add: sc nx kd)
  qed
  show "placedModel s' = None" using D(4) by (simp add: pl)
  show "r < next_oid s' \<and> kind (heap s' r) = ReticleMesh" if "reticle s' = Some r" for r
  proof -
    from that have c: "reticle s = Some r" by (simp add: rt)
    have "r \<noteq> next_oid s" using D(5)[OF c] by auto
    then show ?thesis using D(5)[OF c] by (simp add: nx kd)
  qed
  show "mv_currentModel s' = Some i"
    if "i \<in> set (scene s')" "kind (heap s' i) = ModelObject" for i
  proof -
    from that(1) have m: "i \<in> set (scene s)" by (simp add: sc)
    then have "i \<noteq> next_oid s" using fresh by auto
    then show ?thesis using that(2) D(6)[OF m] by (simp add: kd cur)
  qed
  show "map_option model (app_currentModel s') = mv_currentModel s'"
    using D(7) by (simp add: app cur)
qed

lemma scene_inv_ended:
  assumes inv: "scene_inv s"
    and sc: "set (scene s') = set (scene s) - set_option (reticle s)"
    and ds: "distinct (scene s')"
    and nx: "next_oid s' = next_oid s"
    and pl: "placedModel s' = None"
    and rt: "reticle s' = None"
    and kd: "\<And>i. kind (heap s' i) = kind (heap s i)"
    and cur: "mv_currentModel s' = mv_currentModel s"
    and app: "map_option model (app_currentModel s') = map_option model (app_currentModel s)"
  shows "scene_inv s'"
proof (rule scene_invI)
  note D = scene_invD[OF inv]
  show "distinct (scene s')" by (rule ds)
  show "i < next_oid s'" if "i \<in> set (scene s')" for i
    using that D(2)[of i] by (auto simp: sc nx)
  show "m < next_oid s' \<and> m \<in> set (scene s') \<and> kind (heap s' m) = ModelObject"
    if "mv_currentModel s' = Some m" for m
  proof -
    from that have c: "mv_currentModel s = Some m" by (simp add: cur)
    have "reticle s \<noteq> Some m" using D(5)[of m] D(3)[OF c] by auto
    then show ?thesis using D(3)[OF c] by (auto simp: sc nx kd)
  qed
  show "placedModel s' = None" by (rule pl)
  show "r < next_oid s' \<and> kind (heap s' r) = ReticleMesh" if "reticle s' = Some r" for r
    using that by (simp add: rt)
  show "mv_currentModel s' = Some i"
    if "i \<in> set (scene s')" "kind (heap s' i) = ModelObject" for i
    using that D(6)[of i] by (auto simp: sc cur kd)
  show "map_option model (app_currentModel s') = mv_currentModel s'"
    using D(7) by (simp add: app cur)
qed

lemma scene_inv_emit [simp]: "scene_inv (emit e s) = scene_inv s"
  by (simp add: scene_inv_def emit_def)

lemma scene_inv_update_object:
  "(\<And>ob. kind (f ob) = kind ob) \<Longrightarrow> scene_inv s \<Longrightarrow> scene_inv (update_object r f s)"
  by (erule scene_inv_cong) (simp_all add: update_object_def)

lemma scene_inv_init: "scene_inv (init_state userAgent button_disabled button_text)"
  by (rule scene_invI) (auto simp: init_state_def blank_object_def)

lemma scene_inv_checkARSupport: "scene_inv s \<Longrightarrow> scene_inv (checkARSupport q s)"
  by (erule scene_inv_cong) (simp_all add: checkARSupport_def split: xr_query.splits)

lemma scene_inv_checkWebXRSupport:
  "scene_inv s \<Longrightarrow> scene_inv (checkWebXRSupport userAgent outcome s)"
  by (erule scene_inv_cong)
     (simp_all add: checkWebXRSupport_def showError_def emit_def Let_def split: sum.splits)

lemma scene_inv_exitAR: "scene_inv s \<Longrightarrow> scene_inv (exitAR s)"
  by (erule scene_inv_cong;
      cases "app_currentModel s"; cases "xrSession s";
      simp add: exitAR_def endARSession_def hideError_def update_object_def emit_def Let_def)

lemma startARSession_graph:
  "mv_currentModel (snd (startARSession env s)) = mv_currentModel s
   \<and> placedModel (snd (startARSession env s)) = placedModel s
   \<and> app_currentModel (snd (startARSession env s)) = app_currentModel s
   \<and> ((scene (snd (startARSession env s)) = scene s
        \<and> next_oid (snd (startARSession env s)) = next_oid s
        \<and> reticle (snd (startARSession env s)) = reticle s
        \<and> (\<forall>i. kind (heap (snd (startARSession env s)) i) = kind (heap s i)))
      \<or> (scene (snd (startARSession env s)) = remove1 (next_oid s) (scene s) @ [next_oid s]
        \<and> next_oid (snd (startARSession env s)) = Suc (next_oid s)
        \<and> reticle (snd (startARSession env s)) = Some (next_oid s)
        \<and> (\<forall>i. kind (heap (snd (startARSession env s)) i)
                 = (if i = next_oid s then ReticleMesh else kind (heap s i)))))"
  by (cases "requestSession_result env"; cases "localFloor_result env";
      cases "viewerSpace_result env"; cases "hitTestSource_result env")
     (simp_all add: start_defs)

lemma scene_inv_startARSession:
  assumes "scene_inv s"
  shows "scene_inv (snd (startARSession env s))"
proof -
  note g = startARSession_graph[of env s]
  from g consider
    (same) "scene (snd (startARSession env s)) = scene s"
        "next_oid (snd (startARSession env s)) = next_oid s"
        "reticle (snd (startARSession env s)) = reticle s"
        "\<And>i. kind (heap (snd (startARSession env s)) i) = kind (heap s i)"
  | (new) "scene (snd (startARSession env s)) = remove1 (next_oid s) (scene s) @ [next_oid s]"
        "next_oid (snd (startARSession env s)) = Suc (next_oid s)"
        "reticle (snd (startARSession env s)) = Some (next_oid s)"
        "\<And>i. kind (heap (snd (startARSession env s)) i)
                 = (if i = next_oid s then ReticleMesh else kind (heap s i))"
    by blast
  then show ?thesis
  proof cases
    case same
    show ?thesis
      by (rule scene_inv_cong[OF assms]) (simp_all add: same g)
  next
    case new
    show ?thesis
      by (rule scene_inv_new_reticle[OF assms new]) (simp_all add: g)
  qed
qed

lemma scene_inv_page [simp]:
  "scene_inv (showLoading msg s) = scene_inv s"
  "scene_inv (hideLoading s) = scene_inv s"
  "scene_inv (showError msg s) = scene_inv s"
  "scene_inv (hideError s) = scene_inv s"
  by (simp_all add: scene_inv_def page_defs)

lemma scene_inv_simulation: "scene_inv s \<Longrightarrow> scene_inv (startARSimulation env s)"
  by (erule scene_inv_cong;
      cases "camera_result env"; cases "orientation env"; cases "app_currentModel s";
      simp add: sim_defs)

lemma scene_inv_enterAR:
  assumes "scene_inv s"
  shows "scene_inv (enterAR env s)"
proof -
  define s1 where "s1 = showLoading ''Starting AR session...'' (emit Call_enterAR s)"
  have i1: "scene_inv s1" using assms by (simp add: s1_def)
  obtain r s2 where st: "startARSession (xr env) s1 = (r, s2)"
    by (cases "startARSession (xr env) s1")
  have i2: "scene_inv s2" using scene_inv_startARSession[OF i1, of "xr env"] by (simp add: st)
  have i3: "scene_inv (s2\<lparr>isARActive := True, arButton_textContent := ''Exit AR'',
                                   body_arMode := True, animationLoop := True\<rparr>)"
    by (rule scene_inv_cong[OF i2]) simp_all
  have e: "enterAR env s =
     (if app_currentModel (emit Call_enterAR s) = None
      then showError ''Please load a 3D model first'' (emit Call_enterAR s)
      else if hasWebXR s1
      then (case r of
              Inl e \<Rightarrow> hideLoading (showError (''AR failed: '' @ message_text e) s2)
            | Inr ok \<Rightarrow> hideLoading (s2\<lparr>isARActive := True, arButton_textContent := ''Exit AR'',
                                   body_arMode := True, animationLoop := True\<rparr>))
      else hideLoading (startARSimulation env s1))"
    unfolding enterAR_def Let_def s1_def[symmetric] by (simp add: st)
  show ?thesis
    unfolding e using assms i1 i2 i3
    by (cases r) (simp_all add: scene_inv_simulation)
qed

lemma scene_inv_press: "scene_inv s \<Longrightarrow> scene_inv (press_arButton env s)"
  by (simp add: press_arButton_def arButton_onClick_def scene_inv_exitAR scene_inv_enterAR)

lemma loadModel_failure_graph:
  assumes "(\<exists>e. validateFile f = Inl e) \<or> \<not> parsed_ok po"
  shows "reticle (loadModel f po s) = reticle s"
proof (cases "validateFile f")
  case (Inl e)
  then show ?thesis by (simp add: loadModel_def loadModel_catch_def page_defs)
next
  case (Inr ok)
  with assms have np: "\<not> parsed_ok po" by auto
  then show ?thesis
    by (cases po)
       (simp_all add: loadModel_def Inr loader_defs loadModel_catch_def page_defs Let_def parsed_ok_def)
qed

lemma scene_inv_loadModel:
  assumes "scene_inv s"
  shows "scene_inv (loadModel f po s)"
proof (cases "(\<exists>e. validateFile f = Inl e) \<or> \<not> parsed_ok po")
  case True
  note a = loadModel_failure_atomic[OF True, of s]
  show ?thesis
    by (rule scene_inv_cong[OF assms]) (simp_all add: a loadModel_failure_graph[OF True])
next
  case False
  then obtain ok pos sc an where v: "validateFile f = Inr ok" and po: "po = Parsed pos sc an"
    by (cases "validateFile f"; cases po) (simp_all add: parsed_ok_def)
  note L = loadModel_success[OF v po, of s]
  show ?thesis
    by (rule scene_inv_new_model[OF assms L(1) L(4) L(2) L(3)]) (simp_all add: L(5) L(6) L(7))
qed

lemma scene_inv_files: "scene_inv s \<Longrightarrow> scene_inv (files_chosen fs s)"
  by (cases fs) (auto simp: files_chosen_def scene_inv_loadModel)

lemma placeModel_graph:
  assumes m: "mv_currentModel s = Some m"
  shows "scene (snd (placeModel pose s)) = scene s"
    and "next_oid (snd (placeModel pose s)) = Suc (next_oid s)"
    and "placedModel (snd (placeModel pose s)) = placedModel s"
    and "i \<noteq> next_oid s \<Longrightarrow> kind (heap (snd (placeModel pose s)) i) = kind (heap s i)"
    and "mv_currentModel (snd (placeModel pose s)) = mv_currentModel s"
    and "reticle (snd (placeModel pose s)) = reticle s"
    and "app_currentModel (snd (placeModel pose s)) = app_currentModel s"
    and "fst (placeModel pose s) \<noteq> None"
  by (simp_all add: placeModel_def m new_object_def Let_def)

lemma scene_inv_placeModel:
  assumes "scene_inv s"
  shows "scene_inv (snd (placeModel pose s))"
proof (cases "mv_currentModel s")
  case None
  then show ?thesis using assms by (simp add: placeModel_def)
next
  case (Some m)
  note P = placeModel_graph[OF Some]
  show ?thesis
    by (rule scene_inv_alloc[OF assms P(1) P(2)]) (simp_all add: P)
qed

lemma scene_inv_onXRFrame:
  assumes "scene_inv s"
  shows "scene_inv (snd (onXRFrame frame s))"
proof -
  have u: "\<And>r f. (\<And>ob. kind (f ob) = kind ob) \<Longrightarrow>
             scene_inv (update_object r f (emit XR_getHitTestResults s))"
    using assms by (simp add: scene_inv_update_object)
  have p: "\<And>r f pose. (\<And>ob. kind (f ob) = kind ob) \<Longrightarrow>
             scene_inv (snd (placeModel pose (update_object r f (emit XR_getHitTestResults s))))"
    by (rule scene_inv_placeModel) (rule u)
  show ?thesis
    using assms
    by (simp add: onXRFrame_def Let_def u p split: option.splits list.splits sum.splits)
qed

lemma onSessionEnd_graph:
  "scene (onSessionEnd s) =
     (case placedModel s of None \<Rightarrow> (case reticle s of None \<Rightarrow> scene s | Some r \<Rightarrow> remove1 r (scene s))
      | Some p \<Rightarrow> remove1 p (case reticle s of None \<Rightarrow> scene s | Some r \<Rightarrow> remove1 r (scene s)))"
  "next_oid (onSessionEnd s) = next_oid s"
  "placedModel (onSessionEnd s) = None"
  "reticle (onSessionEnd s) = None"
  "kind (heap (onSessionEnd s) i) = kind (heap s i)"
  "mv_currentModel (onSessionEnd s) = mv_currentModel s"
  "app_currentModel (onSessionEnd s) = app_currentModel s"
  by (cases "placedModel s"; cases "reticle s";
      simp add: onSessionEnd_def resetLighting_def scene_remove_def Let_def)+

lemma scene_inv_onSessionEnd:
  assumes "scene_inv s"
  shows "scene_inv (onSessionEnd s)"
proof -
  note D = scene_invD[OF assms]
  note G = onSessionEnd_graph[of s]
  have st: "set (scene (onSessionEnd s)) = set (scene s) - set_option (reticle s)"
    using D(1) by (cases "reticle s") (auto simp: G(1) D(4))
  have ds: "distinct (scene (onSessionEnd s))"
    using D(1) by (cases "reticle s") (simp_all add: G(1) D(4))
  show ?thesis
    by (rule scene_inv_ended[OF assms st ds]) (simp_all add: G)
qed

lemma scene_inv_session_ended: "scene_inv s \<Longrightarrow> scene_inv (session_ended n s)"
  by (simp add: session_ended_def scene_inv_onSessionEnd)

lemma reachable_scene_inv: "reachable s \<Longrightarrow> scene_inv s"
proof (induction rule: reachable.induct)
  case (constructed userAgent button_disabled button_text)
  show ?case by (rule scene_inv_init)
next
  case (ar_support_checked s q)
  then show ?case by (simp add: scene_inv_checkARSupport)
next
  case (webxr_support_checked s userAgent outcome)
  then show ?case by (simp add: scene_inv_checkWebXRSupport)
next
  case (files_given s fs)
  then show ?case by (simp add: scene_inv_files)
next
  case (button_pressed s env)
  then show ?case by (simp add: scene_inv_press)
next
  case (frame_presented s frame)
  then show ?case by (simp add: scene_inv_onXRFrame)
next
  case (session_over s n)
  then show ?case by (simp add: scene_inv_session_ended)
qed

text \<open>With these facts the model objects of the scene are the current model and nothing else.\<close>

lemma filter_eq_distinct:
  "distinct xs \<Longrightarrow> filter (\<lambda>i. i = m) xs = (if m \<in> set xs then [m] else [])"
  by (induction xs) auto

lemma scene_inv_models:
  assumes "scene_inv s"
  shows "scene_models s = (case mv_currentModel s of None \<Rightarrow> [] | Some m \<Rightarrow> [m])"
proof (cases "mv_currentModel s")
  case None
  have "\<And>i. i \<in> set (scene s) \<Longrightarrow> kind (heap s i) \<noteq> ModelObject"
    using scene_invD(6)[OF assms] None by auto
  then show ?thesis by (simp add: scene_models_def None filter_empty_conv)
next
  case (Some m)
  note D = scene_invD[OF assms]
  have "filter (\<lambda>i. kind (heap s i) = ModelObject) (scene s) = filter (\<lambda>i. i = m) (scene s)"
    using D(6) D(3)[OF Some] Some by (intro filter_cong) auto
  then show ?thesis
    using D(1) D(3)[OF Some] by (simp add: scene_models_def Some filter_eq_distinct)
qed

subsection \<open>The runs, evaluated\<close>

lemma run_tapped_fields:
  "scene run_tapped = [0, 1, 2, 3, 4]" "mv_currentModel run_tapped = Some 3"
  "placedModel run_tapped = None" "reticle run_tapped = Some 4"
  "endListeners run_tapped = [1]" "next_oid run_tapped = 6"
  "scene_models run_tapped = [3]" "isARActive run_tapped" "\<not> arButton_disabled run_tapped"
  "hasWebXR run_tapped"
  "fst (onXRFrame tap_frame run_session)
     = Some (Error (Some ''Cannot read properties of undefined (reading 12)''))"
  "xrSession run_tapped = Some \<lparr>session_id = 1, environmentBlendMode = AlphaBlend\<rparr>"
  by (simp_all add: run_tapped_def tap_frame_def run_session_def run_loaded_def run_checked_def
        env_ok_def xr_ok_def scene_models_def op_defs)

lemma run_exited_fields:
  "scene run_exited = [0, 1, 2, 3, 4]" "mv_currentModel run_exited = Some 3"
  "reticle run_exited = Some 4" "endListeners run_exited = [1]" "\<not> isARActive run_exited"
  "placedModel run_exited = None"
  "new_calls run_tapped run_exited = [Call_exitAR, XR_sessionEnd]"
  by (simp_all add: run_exited_def press_arButton_def arButton_onClick_def run_tapped_fields
        exitAR_def endARSession_def emit_def new_calls_def Let_def)

lemma reachable_runs:
  "reachable run_checked" "reachable run_loaded" "reachable run_session"
  "reachable run_tapped" "reachable run_exited" "reachable run_ended"
  "reachable half_started" "reachable pressed_again"
proof -
  show a: "reachable run_checked"
    unfolding run_checked_def
    by (intro reachable.webxr_support_checked reachable.ar_support_checked reachable.constructed)
  show b: "reachable run_loaded"
    unfolding run_loaded_def by (rule reachable.files_given[OF a])
  show c: "reachable run_session"
    unfolding run_session_def by (rule reachable.button_pressed[OF b])
  show d: "reachable run_tapped"
    unfolding run_tapped_def
    by (rule reachable.frame_presented[OF c]) (simp add: run_session_fields)
  show e: "reachable run_exited"
    unfolding run_exited_def by (rule reachable.button_pressed[OF d])
  show "reachable run_ended"
    unfolding run_ended_def by (rule reachable.session_over[OF e])
  show h: "reachable half_started"
    unfolding half_started_def by (rule reachable.button_pressed[OF b])
  show "reachable pressed_again"
    unfolding pressed_again_def by (rule reachable.button_pressed[OF h])
qed

lemma run_ended_fields:
  "scene run_ended = [0, 1, 2, 3]" "mv_currentModel run_ended = Some 3"
  "reticle run_ended = None" "xrSession run_ended = None"
  "scene_models run_ended = [3]"
proof -
  have e: "run_ended = onSessionEnd run_exited"
    by (simp add: run_ended_def session_ended_def run_exited_fields)
  show "scene run_ended = [0, 1, 2, 3]" "mv_currentModel run_ended = Some 3"
       "reticle run_ended = None"
    by (simp_all add: e onSessionEnd_graph run_exited_fields)
  show "xrSession run_ended = None"
    by (simp add: e onSessionEnd_def resetLighting_def scene_remove_def run_exited_fields Let_def)
  show "scene_models run_ended = [3]"
    using scene_inv_models[OF reachable_scene_inv[OF reachable_runs(6)]]
    by (simp add: e onSessionEnd_graph run_exited_fields)
qed



subsection \<open>Models in the scene\<close>


lemma load_replaces:
  assumes inv: "scene_inv s" and v: "validateFile f = Inr True" and p: "parsed_ok po"
  shows "scene_models (loadModel f po s) = [next_oid s]"
    and "mv_currentModel (loadModel f po s) = Some (next_oid s)"
    and "next_oid s \<in> set (scene (loadModel f po s))"
    and "mv_currentModel s = Some m \<Longrightarrow> m \<notin> set (scene (loadModel f po s)) \<and> m \<noteq> next_oid s"
proof -
  from p obtain pos sc an where po: "po = Parsed pos sc an"
    by (cases po) (simp_all add: parsed_ok_def)
  note L = loadModel_success[OF v po, of s]
  note D = scene_invD[OF inv]
  show c: "mv_currentModel (loadModel f po s) = Some (next_oid s)" by (rule L(2))
  show "scene_models (loadModel f po s) = [next_oid s]"
    using scene_inv_models[OF scene_inv_loadModel[OF inv, of f po]] by (simp add: c)
  show "next_oid s \<in> set (scene (loadModel f po s))" by (simp add: L(1))
  show "m \<notin> set (scene (loadModel f po s)) \<and> m \<noteq> next_oid s" if m: "mv_currentModel s = Some m"
  proof -
    have lt: "m < next_oid s" using D(3)[OF m] by simp
    have fresh: "next_oid s \<notin> set (scene s)" using D(2)[of "next_oid s"] by auto
    have "scene (loadModel f po s) = remove1 m (scene s) @ [next_oid s]"
      using fresh by (simp add: L(1) m remove1_idem notin_set_remove1)
    then show ?thesis using D(1) lt by simp
  qed
qed



text \<open>
  Against C4 as stated: a model is loaded, an AR session is started, the screen is tapped,
  the AR button is pressed again (which ends the session) and the session's \<open>end\<close> event
  is delivered. The session is gone, and the loaded model, object 3, is still in the scene.
\<close>

theorem loaded_model_stays_after_session_end:
  "mv_currentModel run_tapped = Some 3 \<and> 3 \<in> set (scene run_tapped)
   \<and> new_calls run_tapped run_exited = [Call_exitAR, XR_sessionEnd]
   \<and> xrSession run_ended = None
   \<and> mv_currentModel run_ended = Some 3 \<and> 3 \<in> set (scene run_ended)"
  by (simp add: run_tapped_fields run_exited_fields run_ended_fields)

text \<open>
  C4, amended. The current loaded model is removed from the render graph on replacement: in
  every reachable state with a loaded model, a successful load removes the previous model
  from the scene and puts the new one there. The end of an AR session does not remove it:
  after \<open>exitAR\<close>, after the session's \<open>end\<close> event, and after the one followed by the
  other, the loaded model is still the current model and still in the scene.
\<close>

theorem load_replaces_and_session_end_keeps_model:
  assumes "reachable s"
  shows "(mv_currentModel s = Some m \<and> validateFile f = Inr True \<and> parsed_ok po
          \<longrightarrow> m \<notin> set (scene (loadModel f po s))
              \<and> mv_currentModel (loadModel f po s) = Some (next_oid s)
              \<and> next_oid s \<in> set (scene (loadModel f po s))
              \<and> m \<noteq> next_oid s)
     \<and> (mv_currentModel s = Some m
          \<longrightarrow> m \<in> set (scene (session_ended n s)) \<and> mv_currentModel (session_ended n s) = Some m
              \<and> m \<in> set (scene (exitAR s)) \<and> mv_currentModel (exitAR s) = Some m
              \<and> m \<in> set (scene (session_ended n (exitAR s)))
              \<and> mv_currentModel (session_ended n (exitAR s)) = Some m)"
proof -
  note inv = reachable_scene_inv[OF assms]
  have keep: "m \<in> set (scene t) \<and> mv_currentModel t = Some m"
    if "scene_inv t" "mv_currentModel t = mv_currentModel s" "mv_currentModel s = Some m" for t
    using scene_invD(3)[OF that(1), of m] that(2,3) by simp
  have c1: "mv_currentModel (session_ended n t) = mv_currentModel t" for t
    by (simp add: session_ended_def onSessionEnd_graph)
  have c2: "mv_currentModel (exitAR s) = mv_currentModel s"
    by (cases "app_currentModel s"; cases "xrSession s")
       (simp_all add: exitAR_def endARSession_def hideError_def update_object_def emit_def Let_def)
  show ?thesis
    using load_replaces(2,3)[OF inv, of f po] load_replaces(4)[OF inv, of f po m]
          keep[OF scene_inv_session_ended[OF inv, of n] c1]
          keep[OF scene_inv_exitAR[OF inv] c2]
          keep[OF scene_inv_session_ended[OF scene_inv_exitAR[OF inv], of n] trans[OF c1 c2]]
    by blast
qed

theorem load_replaces_and_session_end_keeps_model_witness:
  "3 \<notin> set (scene (loadModel chair (Parsed (0, 0, 0) (1, 1, 1) []) run_exited))
   \<and> 3 \<in> set (scene (session_ended 1 run_exited))
   \<and> 3 \<in> set (scene (exitAR run_exited))
   \<and> 3 \<in> set (scene (session_ended 1 (exitAR run_exited)))"
proof -
  have p: "parsed_ok (Parsed (0, 0, 0) (1, 1, 1) [])" by (simp add: parsed_ok_def)
  show ?thesis
    using load_replaces_and_session_end_keeps_model
            [OF reachable_runs(5), of 3 chair "Parsed (0, 0, 0) (1, 1, 1) []" 1] p
    by (simp add: run_exited_fields)
qed


end
